theory Spec2Isabelle
  imports Main
begin

section \<open>Python values and helpers\<close>

text \<open>
  The feature-extraction notebook works on Python strings, insertion-ordered dictionaries
  and lists. A dictionary is an association list in insertion order; assigning to a key
  that is present keeps its position, assigning to a new key appends it.
\<close>

type_synonym ('k, 'v) dict = "('k \<times> 'v) list"

fun dict_set :: "('k, 'v) dict \<Rightarrow> 'k \<Rightarrow> 'v \<Rightarrow> ('k, 'v) dict" where
  "dict_set [] k v = [(k, v)]"
| "dict_set ((k', v') # d) k v =
     (if k' = k then (k, v) # d else (k', v') # dict_set d k v)"

definition keys :: "('k, 'v) dict \<Rightarrow> 'k list" where
  "keys d = map fst d"

definition startswith :: "string \<Rightarrow> string \<Rightarrow> bool" where
  "startswith s prefix = (take (length prefix) s = prefix)"

definition endswith :: "string \<Rightarrow> string \<Rightarrow> bool" where
  "endswith s suffix =
     (length suffix \<le> length s \<and> drop (length s - length suffix) s = suffix)"

text \<open>\<open>str(n)\<close> for a non-negative integer, and \<open>str(i)\<close> for any integer.\<close>

definition digit_char :: "nat \<Rightarrow> char" where
  "digit_char d =
     (if d = 0 then CHR ''0'' else if d = 1 then CHR ''1'' else if d = 2 then CHR ''2''
      else if d = 3 then CHR ''3'' else if d = 4 then CHR ''4'' else if d = 5 then CHR ''5''
      else if d = 6 then CHR ''6'' else if d = 7 then CHR ''7'' else if d = 8 then CHR ''8''
      else CHR ''9'')"

function str_nat :: "nat \<Rightarrow> string" where
  "str_nat n = (if n < 10 then [digit_char n] else str_nat (n div 10) @ [digit_char (n mod 10)])"
  by pat_completeness auto

termination
  by (relation "measure id") auto

declare str_nat.simps [simp del]

definition str_int :: "int \<Rightarrow> string" where
  "str_int i = (if i < 0 then CHR ''-'' # str_nat (nat (- i)) else str_nat (nat i))"

text \<open>A \<open>for\<close> loop whose body may raise: the first exception ends the loop.\<close>

fun for_each :: "('s \<Rightarrow> 'x \<Rightarrow> 'e + 's) \<Rightarrow> 'x list \<Rightarrow> 's \<Rightarrow> 'e + 's" where
  "for_each body [] s = Inr s"
| "for_each body (x # xs) s =
     (case body s x of Inl e \<Rightarrow> Inl e | Inr s' \<Rightarrow> for_each body xs s')"

section \<open>The file system\<close>

text \<open>
  \<open>posixpath.join\<close>: a component that starts with the separator replaces what came before;
  otherwise it is appended, after a separator unless the path is empty or already ends in one.
\<close>

definition join_step :: "string \<Rightarrow> string \<Rightarrow> string" where
  "join_step path b =
     (if startswith b ''/'' then b
      else if path = [] \<or> endswith path ''/'' then path @ b
      else path @ ''/'' @ b)"

definition os_path_join :: "string \<Rightarrow> string list \<Rightarrow> string" where
  "os_path_join a p = foldl join_step a p"

text \<open>
  A path names nothing, a regular file, or a directory with its listing in the order
  \<open>os.listdir\<close> returns it.
\<close>

datatype node = File | Dir "string list"

type_synonym filesystem = "string \<Rightarrow> node option"

datatype error =
    NotADirectoryError string | FileNotFoundError string | KeyError string
  | UnicodeEncodeError string | OSError string

definition os_path_exists :: "filesystem \<Rightarrow> string \<Rightarrow> bool" where
  "os_path_exists fs p = (fs p \<noteq> None)"

definition os_listdir :: "filesystem \<Rightarrow> string \<Rightarrow> error + string list" where
  "os_listdir fs p =
     (case fs p of
        None \<Rightarrow> Inl (FileNotFoundError p)
      | Some File \<Rightarrow> Inl (NotADirectoryError p)
      | Some (Dir names) \<Rightarrow> Inr names)"

section \<open>Configuration cell of the notebook\<close>

definition splits :: "string list" where
  "splits = [''training'', ''validation'', ''testing'']"

definition labels :: "(string, int) dict" where
  "labels = [(''fake'', 0), (''real'', 1)]"

section \<open>The signal-processing library and the error log\<close>

text \<open>
  librosa and numpy are not part of the repository. Their entry points are parameters of
  the model: each call either raises (\<open>Inl\<close> with the exception's message) or returns
  its array. Samples and feature values have an abstract type \<open>'a\<close>; a feature matrix is
  the list of its rows.

  The last field is the platform's side of
  \<open>with open(error_log, "a") as log_file: log_file.write(text)\<close>: given what the log
  holds and the text to append, it is \<open>None\<close> when the text is appended, or the exception
  that \<open>open\<close> or \<open>write\<close> raises (the log cannot be opened, or the text cannot be
  encoded, as with a file name that holds a byte outside the file system's encoding).
\<close>

record 'a audio_lib =
  librosa_load :: "string \<Rightarrow> string + ('a list \<times> nat)"
  chroma_stft :: "'a list \<Rightarrow> nat \<Rightarrow> string + 'a list list"
  rms :: "'a list \<Rightarrow> string + 'a list list"
  spectral_centroid :: "'a list \<Rightarrow> nat \<Rightarrow> string + 'a list list"
  spectral_bandwidth :: "'a list \<Rightarrow> nat \<Rightarrow> string + 'a list list"
  spectral_rolloff :: "'a list \<Rightarrow> nat \<Rightarrow> string + 'a list list"
  zero_crossing_rate :: "'a list \<Rightarrow> string + 'a list list"
  mfcc :: "'a list \<Rightarrow> nat \<Rightarrow> nat \<Rightarrow> string + 'a list list"
  np_mean :: "'a list \<Rightarrow> 'a"
  log_append :: "string list \<Rightarrow> string \<Rightarrow> error option"

text \<open>What a dictionary of a feature row holds: a float, a string or an integer.\<close>

datatype 'a cell = CFloat 'a | CStr string | CInt int

section \<open>\<open>extract_features\<close>\<close>

text \<open>
  The loop \<open>for i in range(1, 21): features[f"mfcc{i}"] = np.mean(mfccs[i - 1])\<close>.
  Indexing a matrix with fewer than \<open>i\<close> rows raises IndexError.
\<close>

definition mfcc_body ::
  "'a audio_lib \<Rightarrow> 'a list list \<Rightarrow> (string, 'a cell) dict \<Rightarrow> nat
    \<Rightarrow> string + (string, 'a cell) dict" where
  "mfcc_body lib mfccs features i =
     (if i - 1 < length mfccs
      then Inr (dict_set features (''mfcc'' @ str_nat i) (CFloat (np_mean lib (mfccs ! (i - 1)))))
      else Inl (''index '' @ str_nat (i - 1) @ '' is out of bounds for axis 0 with size ''
                @ str_nat (length mfccs)))"

text \<open>The body of the \<open>try\<close> block: the first call that raises ends it.\<close>

definition extract_features_try ::
  "'a audio_lib \<Rightarrow> string \<Rightarrow> string + (string, 'a cell) dict" where
  "extract_features_try lib file_path =
     (case librosa_load lib file_path of Inl e \<Rightarrow> Inl e | Inr (y, sr) \<Rightarrow>
     (case chroma_stft lib y sr of Inl e \<Rightarrow> Inl e | Inr m1 \<Rightarrow>
     (case rms lib y of Inl e \<Rightarrow> Inl e | Inr m2 \<Rightarrow>
     (case spectral_centroid lib y sr of Inl e \<Rightarrow> Inl e | Inr m3 \<Rightarrow>
     (case spectral_bandwidth lib y sr of Inl e \<Rightarrow> Inl e | Inr m4 \<Rightarrow>
     (case spectral_rolloff lib y sr of Inl e \<Rightarrow> Inl e | Inr m5 \<Rightarrow>
     (case zero_crossing_rate lib y of Inl e \<Rightarrow> Inl e | Inr m6 \<Rightarrow>
     (case mfcc lib y sr 20 of Inl e \<Rightarrow> Inl e | Inr mfccs \<Rightarrow>
        for_each (mfcc_body lib mfccs) [1..<21]
          [(''chroma_stft'', CFloat (np_mean lib (concat m1))),
           (''rms'', CFloat (np_mean lib (concat m2))),
           (''spectral_centroid'', CFloat (np_mean lib (concat m3))),
           (''spectral_bandwidth'', CFloat (np_mean lib (concat m4))),
           (''rolloff'', CFloat (np_mean lib (concat m5))),
           (''zero_crossing_rate'', CFloat (np_mean lib (concat m6)))]))))))))"

text \<open>
  \<open>error_log.txt\<close> is opened in append mode for each failure; its content is the list of
  the strings written so far. The \<open>except\<close> clause catches every exception the \<open>try\<close>
  block raises and appends one line to the log. Nothing guards that append: an exception
  it raises leaves \<open>extract_features\<close>. Otherwise the function returns the dictionary, or
  \<open>None\<close> after the line is written.
\<close>

definition log_line :: "string \<Rightarrow> string \<Rightarrow> string" where
  "log_line file_path e = ''Error processing '' @ file_path @ '': '' @ e @ [CHR 0x0A]"

definition extract_features ::
  "'a audio_lib \<Rightarrow> string list \<Rightarrow> string
    \<Rightarrow> error + ((string, 'a cell) dict option \<times> string list)" where
  "extract_features lib error_log file_path =
     (case extract_features_try lib file_path of
        Inr features \<Rightarrow> Inr (Some features, error_log)
      | Inl e \<Rightarrow>
          (case log_append lib error_log (log_line file_path e) of
             Some err \<Rightarrow> Inl err
           | None \<Rightarrow> Inr (None, error_log @ [log_line file_path e])))"

section \<open>Counting the files of a dataset\<close>

text \<open>
  \<open>file_counts\<close> maps a label to a count (flat layout) or a split to a dictionary of
  counts per label (split layout).
\<close>

datatype count_value = Count nat | PerLabel "(string, nat) dict"

definition is_wav :: "string \<Rightarrow> bool" where
  "is_wav f = endswith f ''.wav''"

definition count_folder :: "filesystem \<Rightarrow> string \<Rightarrow> error + nat" where
  "count_folder fs folder_path =
     (if os_path_exists fs folder_path
      then (case os_listdir fs folder_path of
              Inl e \<Rightarrow> Inl e
            | Inr names \<Rightarrow> Inr (length (filter is_wav names)))
      else Inr 0)"

definition count_label ::
  "filesystem \<Rightarrow> string \<Rightarrow> string \<Rightarrow> (string, nat) dict \<times> nat \<Rightarrow> string
    \<Rightarrow> error + ((string, nat) dict \<times> nat)" where
  "count_label fs base_dir split = (\<lambda>(split_counts, total_files) label.
     (case count_folder fs (os_path_join base_dir [split, label]) of
        Inl e \<Rightarrow> Inl e
      | Inr count \<Rightarrow> Inr (dict_set split_counts label count, total_files + count)))"

definition count_split ::
  "filesystem \<Rightarrow> string \<Rightarrow> (string, int) dict \<Rightarrow> (string, count_value) dict \<times> nat
    \<Rightarrow> string \<Rightarrow> error + ((string, count_value) dict \<times> nat)" where
  "count_split fs base_dir labels' = (\<lambda>(file_counts, total_files) split.
     (case for_each (count_label fs base_dir split) (keys labels') ([], total_files) of
        Inl e \<Rightarrow> Inl e
      | Inr (split_counts, total_files') \<Rightarrow>
          Inr (dict_set file_counts split (PerLabel split_counts), total_files')))"

definition count_flat ::
  "filesystem \<Rightarrow> string \<Rightarrow> (string, count_value) dict \<times> nat \<Rightarrow> string
    \<Rightarrow> error + ((string, count_value) dict \<times> nat)" where
  "count_flat fs base_dir = (\<lambda>(file_counts, total_files) label.
     (case count_folder fs (os_path_join base_dir [label]) of
        Inl e \<Rightarrow> Inl e
      | Inr count \<Rightarrow> Inr (dict_set file_counts label (Count count), total_files + count)))"

text \<open>\<open>if splits:\<close> is false for \<open>None\<close> and for the empty list.\<close>

definition count_files_in_dataset ::
  "filesystem \<Rightarrow> string \<Rightarrow> string list option \<Rightarrow> (string, int) dict
    \<Rightarrow> error + ((string, count_value) dict \<times> nat)" where
  "count_files_in_dataset fs base_dir splits' labels' =
     (case splits' of
        Some (s # ss) \<Rightarrow> for_each (count_split fs base_dir labels') (s # ss) ([], 0)
      | _ \<Rightarrow> for_each (count_flat fs base_dir) (keys labels') ([], 0))"

section \<open>Batch processing\<close>

text \<open>
  The state of one batch: the rows collected so far, the error log, and the progress bar
  (\<open>tqdm\<close>'s \<open>total\<close> and its counter \<open>n\<close>, advanced by \<open>update(1)\<close>).
\<close>

record 'a run =
  all_features :: "(string, 'a cell) dict list"
  error_log :: "string list"
  progress_total :: nat
  progress_n :: nat

text \<open>
  \<open>sum(len(os.listdir(p)) for ... if os.path.exists(p))\<close> over the folders of the
  dataset: the progress bar's total.
\<close>

definition listing_size :: "filesystem \<Rightarrow> nat \<Rightarrow> string \<Rightarrow> error + nat" where
  "listing_size fs acc folder_path =
     (if os_path_exists fs folder_path
      then (case os_listdir fs folder_path of
              Inl e \<Rightarrow> Inl e
            | Inr names \<Rightarrow> Inr (acc + length names))
      else Inr acc)"

definition for_norm_folders :: "string \<Rightarrow> string list" where
  "for_norm_folders base_dir =
     concat (map (\<lambda>split. map (\<lambda>label. os_path_join base_dir [split, label]) (keys labels))
       splits)"

definition release_in_wild_folders :: "string \<Rightarrow> string list" where
  "release_in_wild_folders base_dir = map (\<lambda>label. os_path_join base_dir [label]) (keys labels)"

definition total_files_for_norm :: "filesystem \<Rightarrow> string \<Rightarrow> error + nat" where
  "total_files_for_norm fs base_dir = for_each (listing_size fs) (for_norm_folders base_dir) 0"

definition total_files_release_in_wild :: "filesystem \<Rightarrow> string \<Rightarrow> error + nat" where
  "total_files_release_in_wild fs base_dir =
     for_each (listing_size fs) (release_in_wild_folders base_dir) 0"

text \<open>\<open>labels[label]\<close> raises KeyError for a key that is not in the dictionary.\<close>

definition labels_get :: "string \<Rightarrow> error + int" where
  "labels_get label = (case map_of labels label of None \<Rightarrow> Inl (KeyError label) | Some c \<Rightarrow> Inr c)"

text \<open>
  The body of the innermost loop of \<open>process_audio_files_for_norm\<close>, for one name of the
  directory listing. \<open>if features:\<close> is false for \<open>None\<close> and for an empty dictionary.
  The call of \<open>extract_features\<close> stands in no \<open>try\<close>: an exception that leaves it ends
  the loop and the batch.
\<close>

definition for_norm_file ::
  "'a audio_lib \<Rightarrow> string \<Rightarrow> string \<Rightarrow> string \<Rightarrow> 'a run \<Rightarrow> string \<Rightarrow> error + 'a run" where
  "for_norm_file lib folder_path split label st file =
     (if is_wav file then
        (case extract_features lib (error_log st) (os_path_join folder_path [file]) of
           Inl err \<Rightarrow> Inl err
         | Inr (features, log') \<Rightarrow>
             (let st1 = st\<lparr>error_log := log'\<rparr>
              in (case features of
                    None \<Rightarrow> Inr (st1\<lparr>progress_n := progress_n st1 + 1\<rparr>)
                  | Some d \<Rightarrow>
                      if d = [] then Inr (st1\<lparr>progress_n := progress_n st1 + 1\<rparr>)
                      else (case labels_get label of
                              Inl e \<Rightarrow> Inl e
                            | Inr c \<Rightarrow>
                                Inr (st1\<lparr>all_features := all_features st1 @
                                       [dict_set (dict_set (dict_set (dict_set d
                                          ''filename'' (CStr file)) ''split'' (CStr split))
                                          ''label'' (CStr label)) ''LABEL'' (CInt c)],
                                     progress_n := progress_n st1 + 1\<rparr>)))))
      else Inr st)"

definition for_norm_label ::
  "'a audio_lib \<Rightarrow> filesystem \<Rightarrow> string \<Rightarrow> string \<Rightarrow> 'a run \<Rightarrow> string \<Rightarrow> error + 'a run" where
  "for_norm_label lib fs base_dir split st label =
     (let folder_path = os_path_join base_dir [split, label]
      in if \<not> os_path_exists fs folder_path then Inr st
         else (case os_listdir fs folder_path of
                 Inl e \<Rightarrow> Inl e
               | Inr files \<Rightarrow> for_each (for_norm_file lib folder_path split label) files st))"

definition for_norm_split ::
  "'a audio_lib \<Rightarrow> filesystem \<Rightarrow> string \<Rightarrow> 'a run \<Rightarrow> string \<Rightarrow> error + 'a run" where
  "for_norm_split lib fs base_dir st split =
     for_each (for_norm_label lib fs base_dir split) (keys labels) st"

text \<open>
  The function returns \<open>all_features\<close>. The model returns the final state of the batch:
  its field \<open>all_features\<close> is the value returned, the error log and the progress bar
  are the effects. An exception of \<open>os.listdir\<close>, or of the append to the error log,
  is not caught and ends the function.
\<close>

definition process_audio_files_for_norm ::
  "'a audio_lib \<Rightarrow> filesystem \<Rightarrow> string list \<Rightarrow> string \<Rightarrow> error + 'a run" where
  "process_audio_files_for_norm lib fs log base_dir =
     (case total_files_for_norm fs base_dir of
        Inl e \<Rightarrow> Inl e
      | Inr total_files \<Rightarrow>
          for_each (for_norm_split lib fs base_dir) splits
            \<lparr>all_features = [], error_log = log,
             progress_total = total_files, progress_n = 0\<rparr>)"

text \<open>The same for \<open>process_audio_files_release_in_wild\<close>: no split level, no split key.\<close>

definition release_in_wild_file ::
  "'a audio_lib \<Rightarrow> string \<Rightarrow> string \<Rightarrow> 'a run \<Rightarrow> string \<Rightarrow> error + 'a run" where
  "release_in_wild_file lib folder_path label st file =
     (if is_wav file then
        (case extract_features lib (error_log st) (os_path_join folder_path [file]) of
           Inl err \<Rightarrow> Inl err
         | Inr (features, log') \<Rightarrow>
             (let st1 = st\<lparr>error_log := log'\<rparr>
              in (case features of
                    None \<Rightarrow> Inr (st1\<lparr>progress_n := progress_n st1 + 1\<rparr>)
                  | Some d \<Rightarrow>
                      if d = [] then Inr (st1\<lparr>progress_n := progress_n st1 + 1\<rparr>)
                      else (case labels_get label of
                              Inl e \<Rightarrow> Inl e
                            | Inr c \<Rightarrow>
                                Inr (st1\<lparr>all_features := all_features st1 @
                                       [dict_set (dict_set (dict_set d
                                          ''filename'' (CStr file)) ''label'' (CStr label))
                                          ''LABEL'' (CInt c)],
                                     progress_n := progress_n st1 + 1\<rparr>)))))
      else Inr st)"

definition release_in_wild_label ::
  "'a audio_lib \<Rightarrow> filesystem \<Rightarrow> string \<Rightarrow> 'a run \<Rightarrow> string \<Rightarrow> error + 'a run" where
  "release_in_wild_label lib fs base_dir st label =
     (let folder_path = os_path_join base_dir [label]
      in if \<not> os_path_exists fs folder_path then Inr st
         else (case os_listdir fs folder_path of
                 Inl e \<Rightarrow> Inl e
               | Inr files \<Rightarrow> for_each (release_in_wild_file lib folder_path label) files st))"

definition process_audio_files_release_in_wild ::
  "'a audio_lib \<Rightarrow> filesystem \<Rightarrow> string list \<Rightarrow> string \<Rightarrow> error + 'a run" where
  "process_audio_files_release_in_wild lib fs log base_dir =
     (case total_files_release_in_wild fs base_dir of
        Inl e \<Rightarrow> Inl e
      | Inr total_files \<Rightarrow>
          for_each (release_in_wild_label lib fs base_dir) (keys labels)
            \<lparr>all_features = [], error_log = log,
             progress_total = total_files, progress_n = 0\<rparr>)"

section \<open>The entries a traversal visits\<close>

text \<open>
  The loops of the two batch functions visit, folder by folder, the names of the listing
  that end in \<open>.wav\<close>. An entry records the folder, the name, the split (absent in the
  flat layout) and the label. A folder that does not exist has no entries.
\<close>

record dataset_entry =
  entry_folder :: string
  entry_file :: string
  entry_split :: "string option"
  entry_label :: string

definition folder_entries ::
  "filesystem \<Rightarrow> string \<Rightarrow> string option \<Rightarrow> string \<Rightarrow> dataset_entry list" where
  "folder_entries fs folder_path split label =
     (case fs folder_path of
        Some (Dir names) \<Rightarrow>
          map (\<lambda>f. \<lparr>entry_folder = folder_path, entry_file = f,
                     entry_split = split, entry_label = label\<rparr>) (filter is_wav names)
      | _ \<Rightarrow> [])"

definition for_norm_entries :: "filesystem \<Rightarrow> string \<Rightarrow> dataset_entry list" where
  "for_norm_entries fs base_dir =
     concat (map (\<lambda>split. concat (map (\<lambda>label.
        folder_entries fs (os_path_join base_dir [split, label]) (Some split) label)
        (keys labels))) splits)"

definition release_in_wild_entries :: "filesystem \<Rightarrow> string \<Rightarrow> dataset_entry list" where
  "release_in_wild_entries fs base_dir =
     concat (map (\<lambda>label. folder_entries fs (os_path_join base_dir [label]) None label)
       (keys labels))"

text \<open>A layout is a set of folders each of which is a directory or absent.\<close>

definition is_layout :: "filesystem \<Rightarrow> string list \<Rightarrow> bool" where
  "is_layout fs folders = list_all (\<lambda>p. fs p \<noteq> Some File) folders"

text \<open>The sum of the counts a \<open>file_counts\<close> dictionary holds.\<close>

definition count_value_sum :: "count_value \<Rightarrow> nat" where
  "count_value_sum v = (case v of Count n \<Rightarrow> n | PerLabel d \<Rightarrow> sum_list (map snd d))"

definition file_counts_sum :: "(string, count_value) dict \<Rightarrow> nat" where
  "file_counts_sum file_counts = sum_list (map (\<lambda>(k, v). count_value_sum v) file_counts)"

section \<open>Export\<close>

text \<open>
  pandas is not part of the repository. \<open>pd.DataFrame(rows)\<close> for a list of dictionaries
  takes as columns the keys in the order of their first appearance; a row that lacks a
  column holds a missing value there.
\<close>

definition first_seen :: "string list \<Rightarrow> string list" where
  "first_seen ks = foldl (\<lambda>acc k. if k \<in> set acc then acc else acc @ [k]) [] ks"

record 'a DataFrame =
  columns :: "string list"
  data :: "'a cell option list list"

definition pd_DataFrame :: "(string, 'a cell) dict list \<Rightarrow> 'a DataFrame" where
  "pd_DataFrame rows =
     (let cols = first_seen (concat (map keys rows))
      in \<lparr>columns = cols, data = map (\<lambda>r. map (map_of r) cols) rows\<rparr>)"

text \<open>
  \<open>df.to_csv(path, index=False)\<close> hands the header and then each row to a \<open>csv\<close> writer.
  The text of a float is a parameter (\<open>float_repr\<close>); a missing value is written empty.
\<close>

definition cell_text :: "('a \<Rightarrow> string) \<Rightarrow> 'a cell option \<Rightarrow> string" where
  "cell_text float_repr c =
     (case c of
        None \<Rightarrow> []
      | Some (CFloat x) \<Rightarrow> float_repr x
      | Some (CStr s) \<Rightarrow> s
      | Some (CInt i) \<Rightarrow> str_int i)"

definition csv_records :: "('a \<Rightarrow> string) \<Rightarrow> 'a DataFrame \<Rightarrow> string list list" where
  "csv_records float_repr df = columns df # map (map (cell_text float_repr)) (data df)"

text \<open>
  The writer quotes a field that holds the delimiter, the quote character or a line break,
  doubling the quotes inside; a record of one empty field is written as a pair of quotes.
  Fields are joined by commas and every record ends with a line feed.
\<close>

definition csv_field :: "string \<Rightarrow> string" where
  "csv_field f =
     (if list_ex (\<lambda>c. c = CHR '','' \<or> c = CHR 0x22 \<or> c = CHR 0x0A \<or> c = CHR 0x0D) f
      then [CHR 0x22] @ concat (map (\<lambda>c. if c = CHR 0x22 then [c, c] else [c]) f) @ [CHR 0x22]
      else f)"

fun comma_join :: "string list \<Rightarrow> string" where
  "comma_join [] = []"
| "comma_join [f] = f"
| "comma_join (f # g # fs) = f @ '','' @ comma_join (g # fs)"

definition csv_line :: "string list \<Rightarrow> string" where
  "csv_line texts =
     (if texts = [[]] then [CHR 0x22, CHR 0x22] else comma_join (map csv_field texts))
     @ [CHR 0x0A]"

definition csv_text :: "('a \<Rightarrow> string) \<Rightarrow> 'a DataFrame \<Rightarrow> string" where
  "csv_text float_repr df = concat (map csv_line (csv_records float_repr df))"

text \<open>The output directory: a path holds the bytes last written to it. The file is opened
  for writing, so what it held before is replaced.\<close>

type_synonym files = "string \<Rightarrow> string option"

definition to_csv :: "('a \<Rightarrow> string) \<Rightarrow> 'a DataFrame \<Rightarrow> string \<Rightarrow> files \<Rightarrow> files" where
  "to_csv float_repr df path out = out(path \<mapsto> csv_text float_repr df)"

text \<open>
  The export step of a dataset:
  \<open>df = pd.DataFrame(features); df.to_csv(csv_path, index=False)\<close>.
\<close>

definition save_features ::
  "('a \<Rightarrow> string) \<Rightarrow> (string, 'a cell) dict list \<Rightarrow> string \<Rightarrow> files \<Rightarrow> files" where
  "save_features float_repr features csv_path out =
     to_csv float_repr (pd_DataFrame features) csv_path out"

section \<open>The canonical schema\<close>

definition CANONICAL_KEYS :: "string list" where
  "CANONICAL_KEYS =
     [''chroma_stft'', ''rms'', ''spectral_centroid'', ''spectral_bandwidth'', ''rolloff'',
      ''zero_crossing_rate'',
      ''mfcc1'', ''mfcc2'', ''mfcc3'', ''mfcc4'', ''mfcc5'', ''mfcc6'', ''mfcc7'', ''mfcc8'',
      ''mfcc9'', ''mfcc10'', ''mfcc11'', ''mfcc12'', ''mfcc13'', ''mfcc14'', ''mfcc15'',
      ''mfcc16'', ''mfcc17'', ''mfcc18'', ''mfcc19'', ''mfcc20'']"

definition FOR_NORM_COLUMNS :: "string list" where
  "FOR_NORM_COLUMNS = CANONICAL_KEYS @ [''filename'', ''split'', ''label'', ''LABEL'']"

definition RELEASE_IN_WILD_COLUMNS :: "string list" where
  "RELEASE_IN_WILD_COLUMNS = CANONICAL_KEYS @ [''filename'', ''label'', ''LABEL'']"

section \<open>A small dataset\<close>

text \<open>
  A library over the integers for running the model: loading a file whose name ends in
  \<open>b.wav\<close> fails, every other file loads; each descriptor is a one-row matrix, the
  cepstral matrix has one row per coefficient, and the mean is the integer mean. Every
  append to the error log succeeds.
\<close>

definition demo_lib :: "int audio_lib" where
  "demo_lib =
     \<lparr>librosa_load = (\<lambda>p. if endswith p ''b.wav'' then Inl ''corrupt file''
                            else Inr ([1, 2, 3], 16000)),
      chroma_stft = (\<lambda>y sr. Inr [[1, 3]]),
      rms = (\<lambda>y. Inr [[2]]),
      spectral_centroid = (\<lambda>y sr. Inr [[3]]),
      spectral_bandwidth = (\<lambda>y sr. Inr [[4]]),
      spectral_rolloff = (\<lambda>y sr. Inr [[5]]),
      zero_crossing_rate = (\<lambda>y. Inr [[6]]),
      mfcc = (\<lambda>y sr n. Inr (map (\<lambda>k. [int k, int k + 2]) [0..<n])),
      np_mean = (\<lambda>xs. sum_list xs div int (length xs)),
      log_append = (\<lambda>content text. None)\<rparr>"

text \<open>
  \<open>data/training/fake\<close> holds \<open>a.wav\<close>, \<open>b.wav\<close> and a text file, \<open>data/training/real\<close>
  holds \<open>c.wav\<close>; the flat dataset \<open>wild\<close> has an empty \<open>fake\<close> folder and one file in
  \<open>real\<close>. Every other path is absent.
\<close>

definition demo_fs :: filesystem where
  "demo_fs p =
     (if p = ''data/training/fake'' then Some (Dir [''a.wav'', ''b.wav'', ''notes.txt''])
      else if p = ''data/training/real'' then Some (Dir [''c.wav''])
      else if p = ''wild/fake'' then Some (Dir [])
      else if p = ''wild/real'' then Some (Dir [''d.wav''])
      else None)"

text \<open>The feature vector this library yields for every file it loads.\<close>

definition demo_features :: "(string, int cell) dict" where
  "demo_features =
     [(''chroma_stft'', CFloat 2), (''rms'', CFloat 2), (''spectral_centroid'', CFloat 3),
      (''spectral_bandwidth'', CFloat 4), (''rolloff'', CFloat 5),
      (''zero_crossing_rate'', CFloat 6),
      (''mfcc1'', CFloat 1), (''mfcc2'', CFloat 2), (''mfcc3'', CFloat 3), (''mfcc4'', CFloat 4),
      (''mfcc5'', CFloat 5), (''mfcc6'', CFloat 6), (''mfcc7'', CFloat 7), (''mfcc8'', CFloat 8),
      (''mfcc9'', CFloat 9), (''mfcc10'', CFloat 10), (''mfcc11'', CFloat 11),
      (''mfcc12'', CFloat 12), (''mfcc13'', CFloat 13), (''mfcc14'', CFloat 14),
      (''mfcc15'', CFloat 15), (''mfcc16'', CFloat 16), (''mfcc17'', CFloat 17),
      (''mfcc18'', CFloat 18), (''mfcc19'', CFloat 19), (''mfcc20'', CFloat 20)]"

text \<open>The feature row of a file of the small dataset that loads.\<close>

definition demo_row :: "string \<Rightarrow> string \<Rightarrow> string \<Rightarrow> int \<Rightarrow> (string, int cell) dict" where
  "demo_row file split label code =
     demo_features @ [(''filename'', CStr file), (''split'', CStr split), (''label'', CStr label),
                      (''LABEL'', CInt code)]"

definition demo_flat_row :: "string \<Rightarrow> string \<Rightarrow> int \<Rightarrow> (string, int cell) dict" where
  "demo_flat_row file label code =
     demo_features @ [(''filename'', CStr file), (''label'', CStr label), (''LABEL'', CInt code)]"


definition demo_for_norm_result :: "int run" where
  "demo_for_norm_result =
     \<lparr>all_features = [demo_row ''a.wav'' ''training'' ''fake'' 0,
                       demo_row ''c.wav'' ''training'' ''real'' 1],
      error_log = [''Error processing data/training/fake/b.wav: corrupt file'' @ [CHR 0x0A]],
      progress_total = 4, progress_n = 3\<rparr>"

definition demo_release_in_wild_result :: "int run" where
  "demo_release_in_wild_result =
     \<lparr>all_features = [demo_flat_row ''d.wav'' ''real'' 1],
      error_log = [], progress_total = 1, progress_n = 1\<rparr>"

text \<open>The same library when no file can be loaded.\<close>

definition demo_failing_lib :: "int audio_lib" where
  "demo_failing_lib = demo_lib\<lparr>librosa_load := (\<lambda>p. Inl ''corrupt file'')\<rparr>"



text \<open>
  The first end-to-end scenario of the specification: \<open>training/fake\<close> holds \<open>a.wav\<close> and
  the corrupt \<open>b.wav\<close>, \<open>training/real\<close> holds \<open>c.wav\<close>, the other splits are empty.
  And a dataset in which a regular file stands where a label folder is expected.
\<close>

definition scenario_fs :: filesystem where
  "scenario_fs p =
     (if p = ''data/training/fake'' then Some (Dir [''a.wav'', ''b.wav''])
      else if p = ''data/training/real'' then Some (Dir [''c.wav''])
      else if p = ''data/validation/fake'' \<or> p = ''data/validation/real'' \<or>
              p = ''data/testing/fake'' \<or> p = ''data/testing/real'' then Some (Dir [])
      else None)"

definition broken_fs :: filesystem where
  "broken_fs p =
     (if p = ''data/training/fake'' then Some File
      else if p = ''data/training/real'' then Some (Dir [''c.wav''])
      else None)"

section \<open>Entries, rows and log lines\<close>

text \<open>
  The step of a batch for one entry: on a failure one line is appended to the error log,
  on success one row is appended to the rows; either way the progress counter advances.
  When the append to the log raises, the step ends with that exception.
  \<open>entry_row\<close> is the row of an entry whose extraction returned \<open>d\<close>; \<open>feature_rows\<close> and
  \<open>failure_lines\<close> are the rows and the log lines a list of entries gives, in its order.
\<close>

definition entry_path :: "dataset_entry \<Rightarrow> string" where
  "entry_path e = os_path_join (entry_folder e) [entry_file e]"

definition entry_row :: "dataset_entry \<Rightarrow> int \<Rightarrow> (string, 'a cell) dict \<Rightarrow> (string, 'a cell) dict" where
  "entry_row e code d =
     d @ [(''filename'', CStr (entry_file e))]
       @ (case entry_split e of None \<Rightarrow> [] | Some split \<Rightarrow> [(''split'', CStr split)])
       @ [(''label'', CStr (entry_label e)), (''LABEL'', CInt code)]"

definition entry_step :: "'a audio_lib \<Rightarrow> 'a run \<Rightarrow> dataset_entry \<Rightarrow> error + 'a run" where
  "entry_step lib st e =
     (case extract_features_try lib (entry_path e) of
        Inl msg \<Rightarrow>
          (case log_append lib (error_log st) (log_line (entry_path e) msg) of
             Some err \<Rightarrow> Inl err
           | None \<Rightarrow>
               Inr (st\<lparr>error_log := error_log st @ [log_line (entry_path e) msg],
                      progress_n := progress_n st + 1\<rparr>))
      | Inr d \<Rightarrow>
          (case labels_get (entry_label e) of
             Inl err \<Rightarrow> Inl err
           | Inr code \<Rightarrow>
               Inr (st\<lparr>all_features := all_features st @ [entry_row e code d],
                      progress_n := progress_n st + 1\<rparr>)))"

definition feature_rows :: "'a audio_lib \<Rightarrow> dataset_entry list \<Rightarrow> (string, 'a cell) dict list" where
  "feature_rows lib es =
     concat (map (\<lambda>e. case extract_features_try lib (entry_path e) of
                         Inl msg \<Rightarrow> []
                       | Inr d \<Rightarrow> (case labels_get (entry_label e) of
                                    Inl err \<Rightarrow> []
                                  | Inr code \<Rightarrow> [entry_row e code d])) es)"

definition failure_lines :: "'a audio_lib \<Rightarrow> dataset_entry list \<Rightarrow> string list" where
  "failure_lines lib es =
     concat (map (\<lambda>e. case extract_features_try lib (entry_path e) of
                         Inl msg \<Rightarrow>
                           [''Error processing '' @ entry_path e @ '': '' @ msg @ [CHR 0x0A]]
                       | Inr d \<Rightarrow> []) es)"

text \<open>
  The exception that ends a batch over a list of entries, if any: the first append to the
  log that raises. An entry whose extraction succeeds does not touch the log; a line that
  the log accepts is in the log when the next one is appended.
\<close>

fun first_refusal :: "'a audio_lib \<Rightarrow> string list \<Rightarrow> dataset_entry list \<Rightarrow> error option" where
  "first_refusal lib log [] = None"
| "first_refusal lib log (e # es) =
     (case extract_features_try lib (entry_path e) of
        Inr d \<Rightarrow> first_refusal lib log es
      | Inl msg \<Rightarrow>
          (case log_append lib log
                  (''Error processing '' @ entry_path e @ '': '' @ msg @ [CHR 0x0A]) of
             Some err \<Rightarrow> Some err
           | None \<Rightarrow>
               first_refusal lib
                 (log @ [''Error processing '' @ entry_path e @ '': '' @ msg @ [CHR 0x0A]]) es))"

section \<open>Invariant of a batch\<close>

text \<open>\<open>rows_have cols st\<close>: every row collected so far has the key list \<open>cols\<close>.\<close>

definition rows_have :: "string list \<Rightarrow> 'a run \<Rightarrow> bool" where
  "rows_have cols st = list_all (\<lambda>r. keys r = cols) (all_features st)"

section \<open>Feature extraction: the schema of a feature vector\<close>

lemma str_nat_small: "n < 10 \<Longrightarrow> str_nat n = [digit_char n]"
  by (simp add: str_nat.simps)

lemma str_nat_two:
  "10 \<le> n \<Longrightarrow> n < 100 \<Longrightarrow> str_nat n = [digit_char (n div 10), digit_char (n mod 10)]"
  by (subst str_nat.simps) (simp add: str_nat_small)

lemma range_1_21:
  "[1..<21] = [1, 2, 3, 4, 5, 6, 7, 8, 9, 10, 11, 12, 13, 14, 15, 16, 17, 18, 19, 20 :: nat]"
  by code_simp

lemma mfcc_names:
  "map (\<lambda>i. ''mfcc'' @ str_nat i) [1..<21] =
     [''mfcc1'', ''mfcc2'', ''mfcc3'', ''mfcc4'', ''mfcc5'', ''mfcc6'', ''mfcc7'', ''mfcc8'',
      ''mfcc9'', ''mfcc10'', ''mfcc11'', ''mfcc12'', ''mfcc13'', ''mfcc14'', ''mfcc15'',
      ''mfcc16'', ''mfcc17'', ''mfcc18'', ''mfcc19'', ''mfcc20'']"
  unfolding range_1_21 by (simp add: str_nat_small str_nat_two digit_char_def)

lemma mfcc_loop_ok:
  assumes "20 \<le> length mfccs"
  shows "for_each (mfcc_body lib mfccs) [1..<21]
          [(''chroma_stft'', v1), (''rms'', v2), (''spectral_centroid'', v3),
           (''spectral_bandwidth'', v4), (''rolloff'', v5), (''zero_crossing_rate'', v6)]
       = Inr ([(''chroma_stft'', v1), (''rms'', v2), (''spectral_centroid'', v3),
           (''spectral_bandwidth'', v4), (''rolloff'', v5), (''zero_crossing_rate'', v6)]
           @ map (\<lambda>i. (''mfcc'' @ str_nat i, CFloat (np_mean lib (mfccs ! (i - 1))))) [1..<21])"
  using assms unfolding range_1_21
  by (auto simp add: mfcc_body_def str_nat_small str_nat_two digit_char_def)

lemma mfcc_loop_fails:
  "i \<in> set xs \<Longrightarrow> \<not> i - 1 < length mfccs \<Longrightarrow> isl (for_each (mfcc_body lib mfccs) xs d)"
proof (induction xs arbitrary: d)
  case Nil
  then show ?case by simp
next
  case (Cons x xs)
  show ?case
  proof (cases "mfcc_body lib mfccs d x")
    case (Inl e)
    then show ?thesis by simp
  next
    case (Inr d')
    then have "x \<noteq> i" using Cons.prems(2) by (auto simp: mfcc_body_def)
    then have "i \<in> set xs" using Cons.prems(1) by simp
    then show ?thesis using Inr Cons.IH Cons.prems(2) by simp
  qed
qed

lemma mfcc_loop_short:
  assumes "length mfccs < 20"
  shows "isl (for_each (mfcc_body lib mfccs) [1..<21] d)"
proof -
  have "(20::nat) \<in> set [1..<21]" by simp
  moreover have "\<not> (20::nat) - 1 < length mfccs" using assms by simp
  ultimately show ?thesis by (rule mfcc_loop_fails)
qed

lemma extract_features_try_Inr:
  assumes "extract_features_try lib file_path = Inr features"
  shows "\<exists>y sr d0 mfccs.
           librosa_load lib file_path = Inr (y, sr) \<and>
           mfcc lib y sr 20 = Inr mfccs \<and> 20 \<le> length mfccs \<and>
           keys d0 = [''chroma_stft'', ''rms'', ''spectral_centroid'', ''spectral_bandwidth'',
                      ''rolloff'', ''zero_crossing_rate''] \<and>
           features =
             d0 @ map (\<lambda>i. (''mfcc'' @ str_nat i, CFloat (np_mean lib (mfccs ! (i - 1))))) [1..<21]"
proof -
  from assms obtain y sr m1 m2 m3 m4 m5 m6 mfccs where
    calls: "librosa_load lib file_path = Inr (y, sr)" "mfcc lib y sr 20 = Inr mfccs"
    and loop: "for_each (mfcc_body lib mfccs) [1..<21]
          [(''chroma_stft'', CFloat (np_mean lib (concat m1))),
           (''rms'', CFloat (np_mean lib (concat m2))),
           (''spectral_centroid'', CFloat (np_mean lib (concat m3))),
           (''spectral_bandwidth'', CFloat (np_mean lib (concat m4))),
           (''rolloff'', CFloat (np_mean lib (concat m5))),
           (''zero_crossing_rate'', CFloat (np_mean lib (concat m6)))] = Inr features"
    unfolding extract_features_try_def by (auto split: sum.splits prod.splits)
  have len: "20 \<le> length mfccs"
  proof (rule ccontr)
    assume "\<not> 20 \<le> length mfccs"
    then have "length mfccs < 20" by simp
    from mfcc_loop_short [OF this] loop show False by (metis sum.disc(2))
  qed
  define d0 where "d0 = [(''chroma_stft'', CFloat (np_mean lib (concat m1))),
           (''rms'', CFloat (np_mean lib (concat m2))),
           (''spectral_centroid'', CFloat (np_mean lib (concat m3))),
           (''spectral_bandwidth'', CFloat (np_mean lib (concat m4))),
           (''rolloff'', CFloat (np_mean lib (concat m5))),
           (''zero_crossing_rate'', CFloat (np_mean lib (concat m6)))]"
  have k0: "keys d0 = [''chroma_stft'', ''rms'', ''spectral_centroid'', ''spectral_bandwidth'',
                      ''rolloff'', ''zero_crossing_rate'']"
    by (simp add: d0_def keys_def)
  from loop have "features =
      d0 @ map (\<lambda>i. (''mfcc'' @ str_nat i, CFloat (np_mean lib (mfccs ! (i - 1))))) [1..<21]"
    unfolding mfcc_loop_ok [OF len] d0_def by simp
  with calls len k0 show ?thesis by blast
qed

lemma extract_features_Some:
  "extract_features lib log file_path = Inr (Some features, log') \<longleftrightarrow>
     extract_features_try lib file_path = Inr features \<and> log' = log"
  by (auto simp: extract_features_def split: sum.splits option.splits)

lemma extract_features_None:
  "extract_features lib log file_path = Inr (None, log') \<longleftrightarrow>
     (\<exists>e. extract_features_try lib file_path = Inl e \<and>
          log_append lib log (log_line file_path e) = None \<and>
          log' = log @ [log_line file_path e])"
  by (auto simp: extract_features_def split: sum.splits option.splits)

lemma extract_features_raises:
  "extract_features lib log file_path = Inl err \<longleftrightarrow>
     (\<exists>e. extract_features_try lib file_path = Inl e \<and>
          log_append lib log (log_line file_path e) = Some err)"
  by (auto simp: extract_features_def split: sum.splits option.splits)

lemma extract_features_try_keys:
  assumes "extract_features_try lib file_path = Inr features"
  shows "keys features = CANONICAL_KEYS"
proof -
  from extract_features_try_Inr [OF assms] obtain d0 mfccs where
    "features = d0 @ map (\<lambda>i. (''mfcc'' @ str_nat i, CFloat (np_mean lib (mfccs ! (i - 1))))) [1..<21]"
    "keys d0 = [''chroma_stft'', ''rms'', ''spectral_centroid'', ''spectral_bandwidth'', ''rolloff'',
      ''zero_crossing_rate'']"
    by blast
  then have "keys features = [''chroma_stft'', ''rms'', ''spectral_centroid'', ''spectral_bandwidth'', ''rolloff'',
      ''zero_crossing_rate''] @ map (\<lambda>i. ''mfcc'' @ str_nat i) [1..<21]"
    by (simp add: keys_def comp_def)
  then show ?thesis unfolding mfcc_names CANONICAL_KEYS_def by simp
qed

lemma distinct_CANONICAL_KEYS: "distinct CANONICAL_KEYS"
  by (simp add: CANONICAL_KEYS_def)

lemma length_CANONICAL_KEYS: "length CANONICAL_KEYS = 26"
  by (simp add: CANONICAL_KEYS_def)

text \<open>
  Claim C2. Whenever \<open>extract_features\<close> returns a dictionary, its keys are exactly the 26
  canonical keys, in canonical order and without repetition, and for each \<open>i\<close> from 1 to
  20 the entry \<open>mfcc\<close>\<open>i\<close> sits at position \<open>5 + i\<close> and holds the mean of row
  \<open>i - 1\<close> of the cepstral matrix, the time series of the \<open>i\<close>-th coefficient.
\<close>

theorem extract_features_schema:
  assumes "extract_features lib log file_path = Inr (Some features, log')"
  shows "keys features = CANONICAL_KEYS \<and> distinct (keys features) \<and> length features = 26 \<and>
         (\<exists>y sr mfccs. librosa_load lib file_path = Inr (y, sr) \<and> mfcc lib y sr 20 = Inr mfccs \<and>
            (\<forall>i \<in> {1..20}.
               features ! (5 + i) = (''mfcc'' @ str_nat i, CFloat (np_mean lib (mfccs ! (i - 1)))) \<and>
               map_of features (''mfcc'' @ str_nat i) = Some (CFloat (np_mean lib (mfccs ! (i - 1))))))"
proof -
  from assms have ok: "extract_features_try lib file_path = Inr features"
    by (simp add: extract_features_Some)
  have k: "keys features = CANONICAL_KEYS" by (rule extract_features_try_keys [OF ok])
  have d: "distinct (keys features)" unfolding k by (rule distinct_CANONICAL_KEYS)
  have l: "length features = 26"
    using k length_CANONICAL_KEYS by (metis keys_def length_map)
  from extract_features_try_Inr [OF ok] obtain y sr d0 mfccs where
    load: "librosa_load lib file_path = Inr (y, sr)" and m: "mfcc lib y sr 20 = Inr mfccs"
    and f: "features = d0 @ map (\<lambda>i. (''mfcc'' @ str_nat i, CFloat (np_mean lib (mfccs ! (i - 1))))) [1..<21]"
    and k0: "keys d0 = [''chroma_stft'', ''rms'', ''spectral_centroid'', ''spectral_bandwidth'',
                      ''rolloff'', ''zero_crossing_rate'']"
    by blast
  have "length (keys d0) = 6" unfolding k0 by simp
  then have l0: "length d0 = 6" by (simp add: keys_def)
  have "features ! (5 + i) = (''mfcc'' @ str_nat i, CFloat (np_mean lib (mfccs ! (i - 1)))) \<and>
        map_of features (''mfcc'' @ str_nat i) = Some (CFloat (np_mean lib (mfccs ! (i - 1))))"
    if i: "i \<in> {1..20}" for i
  proof -
    have idx: "5 + i = length d0 + (i - 1)" using i l0 by simp
    have "i - 1 < length [1..<21::nat]" using i by auto
    moreover have "[1..<21] ! (i - 1) = i" using i by auto
    ultimately have nth:
      "features ! (5 + i) = (''mfcc'' @ str_nat i, CFloat (np_mean lib (mfccs ! (i - 1))))"
      unfolding f idx nth_append_length_plus by (simp only: nth_map)
    have "5 + i < length features" using i l by simp
    then have "features ! (5 + i) \<in> set features" by (rule nth_mem)
    with nth d show ?thesis by (simp add: keys_def)
  qed
  with k d l load m show ?thesis by blast
qed

lemma range_0_20:
  "[0..<20] = [0, 1, 2, 3, 4, 5, 6, 7, 8, 9, 10, 11, 12, 13, 14, 15, 16, 17, 18, 19 :: nat]"
  by code_simp

lemma demo_try:
  assumes "\<not> endswith p ''b.wav''"
  shows "extract_features_try demo_lib p = Inr demo_features"
proof -
  have len: "20 \<le> length (map (\<lambda>k. [int k, int k + 2]) [0..<20])" by simp
  show ?thesis
    using assms
    unfolding extract_features_try_def demo_lib_def
    apply (simp add: mfcc_loop_ok [OF len, unfolded One_nat_def] del: upt.simps)
    unfolding range_1_21 [unfolded One_nat_def] range_0_20
    apply (simp add: str_nat_small str_nat_two digit_char_def demo_features_def)
    done
qed

text \<open>The theorem at \<open>a.wav\<close> of the small dataset.\<close>

theorem extract_features_schema_witness:
  "extract_features demo_lib [] ''data/training/fake/a.wav'' = Inr (Some demo_features, []) \<and>
   keys demo_features = CANONICAL_KEYS \<and> distinct (keys demo_features) \<and>
   length demo_features = 26 \<and> demo_features ! (5 + 7) = (''mfcc7'', CFloat 7)"
proof -
  have nb: "\<not> endswith ''data/training/fake/a.wav'' ''b.wav''" by (simp add: endswith_def)
  have run:
    "extract_features demo_lib [] ''data/training/fake/a.wav'' = Inr (Some demo_features, [])"
    by (simp add: extract_features_def demo_try [OF nb])
  have seventh: "demo_features ! (5 + 7) = (''mfcc7'', CFloat 7)"
    by (simp add: demo_features_def)
  from extract_features_schema [OF run]
  have "keys demo_features = CANONICAL_KEYS" "distinct (keys demo_features)"
    "length demo_features = 26"
    by blast+
  with run seventh show ?thesis by blast
qed

section \<open>Rows of the feature table\<close>

lemma dict_set_fresh: "k \<notin> set (keys d) \<Longrightarrow> dict_set d k v = d @ [(k, v)]"
  by (induction d) (auto simp: keys_def)

lemma keys_Nil: "keys [] = []"
  by (simp add: keys_def)

lemma keys_Cons: "keys ((k, v) # d) = k # keys d"
  by (simp add: keys_def)

lemma keys_append: "keys (d @ e) = keys d @ keys e"
  by (simp add: keys_def)

lemma for_norm_row:
  assumes "keys d = CANONICAL_KEYS"
  shows "dict_set (dict_set (dict_set (dict_set d ''filename'' a) ''split'' b) ''label'' c) ''LABEL'' e
         = d @ [(''filename'', a), (''split'', b), (''label'', c), (''LABEL'', e)]"
proof -
  have 1: "dict_set d ''filename'' a = d @ [(''filename'', a)]"
    by (rule dict_set_fresh) (simp add: assms CANONICAL_KEYS_def)
  have 2: "dict_set (d @ [(''filename'', a)]) ''split'' b = d @ [(''filename'', a), (''split'', b)]"
    using dict_set_fresh [of "''split''" "d @ [(''filename'', a)]" b]
    by (simp add: keys_append keys_Cons keys_Nil assms CANONICAL_KEYS_def)
  have 3: "dict_set (d @ [(''filename'', a), (''split'', b)]) ''label'' c
           = d @ [(''filename'', a), (''split'', b), (''label'', c)]"
    using dict_set_fresh [of "''label''" "d @ [(''filename'', a), (''split'', b)]" c]
    by (simp add: keys_append keys_Cons keys_Nil assms CANONICAL_KEYS_def)
  have 4: "dict_set (d @ [(''filename'', a), (''split'', b), (''label'', c)]) ''LABEL'' e
           = d @ [(''filename'', a), (''split'', b), (''label'', c), (''LABEL'', e)]"
    using dict_set_fresh [of "''LABEL''" "d @ [(''filename'', a), (''split'', b), (''label'', c)]" e]
    by (simp add: keys_append keys_Cons keys_Nil assms CANONICAL_KEYS_def)
  show ?thesis by (simp only: 1 2 3 4)
qed

lemma release_in_wild_row:
  assumes "keys d = CANONICAL_KEYS"
  shows "dict_set (dict_set (dict_set d ''filename'' a) ''label'' c) ''LABEL'' e
         = d @ [(''filename'', a), (''label'', c), (''LABEL'', e)]"
proof -
  have 1: "dict_set d ''filename'' a = d @ [(''filename'', a)]"
    by (rule dict_set_fresh) (simp add: assms CANONICAL_KEYS_def)
  have 3: "dict_set (d @ [(''filename'', a)]) ''label'' c
           = d @ [(''filename'', a), (''label'', c)]"
    using dict_set_fresh [of "''label''" "d @ [(''filename'', a)]" c]
    by (simp add: keys_append keys_Cons keys_Nil assms CANONICAL_KEYS_def)
  have 4: "dict_set (d @ [(''filename'', a), (''label'', c)]) ''LABEL'' e
           = d @ [(''filename'', a), (''label'', c), (''LABEL'', e)]"
    using dict_set_fresh [of "''LABEL''" "d @ [(''filename'', a), (''label'', c)]" e]
    by (simp add: keys_append keys_Cons keys_Nil assms CANONICAL_KEYS_def)
  show ?thesis by (simp only: 1 3 4)
qed

lemma try_nonempty: "extract_features_try lib p = Inr d \<Longrightarrow> d \<noteq> []"
  using extract_features_try_keys [of lib p d] by (auto simp: keys_def CANONICAL_KEYS_def)

lemma for_norm_file_skip: "\<not> is_wav file \<Longrightarrow> for_norm_file lib folder split label st file = Inr st"
  by (simp add: for_norm_file_def)

lemma for_norm_file_ok:
  assumes "is_wav file" "extract_features_try lib (os_path_join folder [file]) = Inr d"
    "map_of labels label = Some code"
  shows "for_norm_file lib folder split label st file =
     Inr (st\<lparr>all_features := all_features st @
            [d @ [(''filename'', CStr file), (''split'', CStr split), (''label'', CStr label),
                  (''LABEL'', CInt code)]],
          progress_n := progress_n st + 1\<rparr>)"
  using assms try_nonempty [OF assms(2)]
  by (simp add: for_norm_file_def extract_features_def labels_get_def
      for_norm_row [OF extract_features_try_keys [OF assms(2)]])

lemma for_norm_file_fail:
  assumes "is_wav file" "extract_features_try lib (os_path_join folder [file]) = Inl e"
  shows "for_norm_file lib folder split label st file =
     (case log_append lib (error_log st) (log_line (os_path_join folder [file]) e) of
        Some err \<Rightarrow> Inl err
      | None \<Rightarrow>
          Inr (st\<lparr>error_log := error_log st @ [log_line (os_path_join folder [file]) e],
                 progress_n := progress_n st + 1\<rparr>))"
  using assms by (simp add: for_norm_file_def extract_features_def split: option.splits)

lemma release_in_wild_file_skip:
  "\<not> is_wav file \<Longrightarrow> release_in_wild_file lib folder label st file = Inr st"
  by (simp add: release_in_wild_file_def)

lemma release_in_wild_file_ok:
  assumes "is_wav file" "extract_features_try lib (os_path_join folder [file]) = Inr d"
    "map_of labels label = Some code"
  shows "release_in_wild_file lib folder label st file =
     Inr (st\<lparr>all_features := all_features st @
            [d @ [(''filename'', CStr file), (''label'', CStr label), (''LABEL'', CInt code)]],
          progress_n := progress_n st + 1\<rparr>)"
  using assms try_nonempty [OF assms(2)]
  by (simp add: release_in_wild_file_def extract_features_def labels_get_def
      release_in_wild_row [OF extract_features_try_keys [OF assms(2)]])

lemma release_in_wild_file_fail:
  assumes "is_wav file" "extract_features_try lib (os_path_join folder [file]) = Inl e"
  shows "release_in_wild_file lib folder label st file =
     (case log_append lib (error_log st) (log_line (os_path_join folder [file]) e) of
        Some err \<Rightarrow> Inl err
      | None \<Rightarrow>
          Inr (st\<lparr>error_log := error_log st @ [log_line (os_path_join folder [file]) e],
                 progress_n := progress_n st + 1\<rparr>))"
  using assms by (simp add: release_in_wild_file_def extract_features_def split: option.splits)

section \<open>The per-file step\<close>


lemma demo_paths:
  "os_path_join ''data/training/fake'' [''a.wav''] = ''data/training/fake/a.wav''"
  "os_path_join ''data/training/fake'' [''b.wav''] = ''data/training/fake/b.wav''"
  "os_path_join ''data/training/real'' [''c.wav''] = ''data/training/real/c.wav''"
  "os_path_join ''wild/real'' [''d.wav''] = ''wild/real/d.wav''"
  by (simp_all add: os_path_join_def join_step_def startswith_def endswith_def)

lemma demo_is_wav:
  "is_wav ''a.wav''" "is_wav ''b.wav''" "is_wav ''c.wav''" "is_wav ''d.wav''"
  "\<not> is_wav ''notes.txt''"
  by (simp_all add: is_wav_def endswith_def)

lemma demo_log_append: "log_append demo_lib content text = None"
  by (simp add: demo_lib_def)

lemma demo_try_a: "extract_features_try demo_lib ''data/training/fake/a.wav'' = Inr demo_features"
  by (rule demo_try) (simp add: endswith_def)

lemma demo_try_b: "extract_features_try demo_lib ''data/training/fake/b.wav'' = Inl ''corrupt file''"
  by (simp add: extract_features_try_def demo_lib_def endswith_def)

lemma demo_try_c: "extract_features_try demo_lib ''data/training/real/c.wav'' = Inr demo_features"
  by (rule demo_try) (simp add: endswith_def)

lemma demo_try_d: "extract_features_try demo_lib ''wild/real/d.wav'' = Inr demo_features"
  by (rule demo_try) (simp add: endswith_def)



section \<open>The batch as a loop over the entries\<close>

lemma labels_keys: "label \<in> set (keys labels) \<Longrightarrow> \<exists>code. map_of labels label = Some code"
  by (auto simp: labels_def keys_def)

lemma length_folder_entries:
  "length (folder_entries fs p split label) =
     (case fs p of Some (Dir names) \<Rightarrow> length (filter is_wav names) | _ \<Rightarrow> 0)"
  by (simp add: folder_entries_def split: option.splits node.splits)

lemma is_layout_for_norm:
  assumes "is_layout fs (for_norm_folders base_dir)" "split \<in> set splits"
    "label \<in> set (keys labels)"
  shows "fs (os_path_join base_dir [split, label]) \<noteq> Some File"
  using assms by (auto simp: is_layout_def for_norm_folders_def list_all_iff)

lemma is_layout_release_in_wild:
  assumes "is_layout fs (release_in_wild_folders base_dir)" "label \<in> set (keys labels)"
  shows "fs (os_path_join base_dir [label]) \<noteq> Some File"
  using assms by (auto simp: is_layout_def release_in_wild_folders_def list_all_iff)

lemma listing_size_Inr:
  assumes "fs p \<noteq> Some File"
  shows "listing_size fs acc p =
           Inr (acc + (case fs p of Some (Dir names) \<Rightarrow> length names | _ \<Rightarrow> 0))"
proof (cases "fs p")
  case None
  then show ?thesis by (simp add: listing_size_def os_path_exists_def)
next
  case (Some nd)
  with assms obtain names where "nd = Dir names" by (cases nd) auto
  with Some show ?thesis by (simp add: listing_size_def os_path_exists_def os_listdir_def)
qed

lemma listing_size_layout:
  assumes "is_layout fs ps"
  shows "\<exists>n. for_each (listing_size fs) ps acc = Inr n"
  using assms
proof (induction ps arbitrary: acc)
  case Nil
  then show ?case by simp
next
  case (Cons p ps)
  then have p: "fs p \<noteq> Some File" and ps: "is_layout fs ps"
    by (simp_all add: is_layout_def)
  from Cons.IH [OF ps] show ?case by (simp add: listing_size_Inr [of fs p, OF p])
qed

lemma length_for_norm_entries:
  "length (for_norm_entries fs base_dir) =
     sum_list (map (\<lambda>split. sum_list (map (\<lambda>label.
        length (folder_entries fs (os_path_join base_dir [split, label]) (Some split) label))
        (keys labels))) splits)"
  by (simp add: for_norm_entries_def length_concat comp_def)

lemma length_release_in_wild_entries:
  "length (release_in_wild_entries fs base_dir) =
     sum_list (map (\<lambda>label.
        length (folder_entries fs (os_path_join base_dir [label]) None label)) (keys labels))"
  by (simp add: release_in_wild_entries_def length_concat comp_def)

lemma for_each_append:
  "for_each body (xs @ ys) s =
     (case for_each body xs s of Inl e \<Rightarrow> Inl e | Inr s' \<Rightarrow> for_each body ys s')"
  by (induction xs arbitrary: s) (auto split: sum.splits)

lemma for_each_concat:
  "for_each (\<lambda>s x. for_each body (f x) s) xs s = for_each body (concat (map f xs)) s"
  by (induction xs arbitrary: s) (auto simp: for_each_append split: sum.splits)

lemma for_each_cong:
  "(\<And>x s. x \<in> set xs \<Longrightarrow> body s x = body' s x) \<Longrightarrow> for_each body xs s = for_each body' xs s"
  by (induction xs arbitrary: s) (auto split: sum.splits)

lemma for_norm_file_entry:
  assumes "is_wav file"
  shows "for_norm_file lib folder split label st file =
           entry_step lib st \<lparr>entry_folder = folder, entry_file = file,
                               entry_split = Some split, entry_label = label\<rparr>"
proof (cases "extract_features_try lib (os_path_join folder [file])")
  case (Inl msg)
  then show ?thesis
    by (simp add: for_norm_file_fail [OF assms Inl] entry_step_def entry_path_def
        split: option.splits)
next
  case (Inr d)
  show ?thesis
  proof (cases "map_of labels label")
    case None
    with assms Inr try_nonempty [OF Inr] show ?thesis
      by (simp add: for_norm_file_def extract_features_def labels_get_def entry_step_def
          entry_path_def)
  next
    case (Some code)
    with Inr show ?thesis
      by (simp add: for_norm_file_ok [OF assms Inr Some] entry_step_def entry_path_def
          labels_get_def entry_row_def)
  qed
qed

lemma release_in_wild_file_entry:
  assumes "is_wav file"
  shows "release_in_wild_file lib folder label st file =
           entry_step lib st \<lparr>entry_folder = folder, entry_file = file,
                               entry_split = None, entry_label = label\<rparr>"
proof (cases "extract_features_try lib (os_path_join folder [file])")
  case (Inl msg)
  then show ?thesis
    by (simp add: release_in_wild_file_fail [OF assms Inl] entry_step_def entry_path_def
        split: option.splits)
next
  case (Inr d)
  show ?thesis
  proof (cases "map_of labels label")
    case None
    with assms Inr try_nonempty [OF Inr] show ?thesis
      by (simp add: release_in_wild_file_def extract_features_def labels_get_def entry_step_def
          entry_path_def)
  next
    case (Some code)
    with Inr show ?thesis
      by (simp add: release_in_wild_file_ok [OF assms Inr Some] entry_step_def entry_path_def
          labels_get_def entry_row_def)
  qed
qed

lemma for_norm_files_entries:
  "for_each (for_norm_file lib folder split label) names st =
     for_each (entry_step lib)
       (map (\<lambda>f. \<lparr>entry_folder = folder, entry_file = f,
                   entry_split = Some split, entry_label = label\<rparr>) (filter is_wav names)) st"
proof (induction names arbitrary: st)
  case Nil
  then show ?case by simp
next
  case (Cons f names)
  show ?case
  proof (cases "is_wav f")
    case True
    with Cons.IH show ?thesis
      by (simp add: for_norm_file_entry split: sum.splits)
  next
    case False
    with Cons.IH show ?thesis
      by (simp add: for_norm_file_skip)
  qed
qed

lemma release_in_wild_files_entries:
  "for_each (release_in_wild_file lib folder label) names st =
     for_each (entry_step lib)
       (map (\<lambda>f. \<lparr>entry_folder = folder, entry_file = f,
                   entry_split = None, entry_label = label\<rparr>) (filter is_wav names)) st"
proof (induction names arbitrary: st)
  case Nil
  then show ?case by simp
next
  case (Cons f names)
  show ?case
  proof (cases "is_wav f")
    case True
    with Cons.IH show ?thesis
      by (simp add: release_in_wild_file_entry split: sum.splits)
  next
    case False
    with Cons.IH show ?thesis
      by (simp add: release_in_wild_file_skip)
  qed
qed

lemma for_norm_label_entries:
  assumes "fs (os_path_join base_dir [split, label]) \<noteq> Some File"
  shows "for_norm_label lib fs base_dir split st label =
           for_each (entry_step lib)
             (folder_entries fs (os_path_join base_dir [split, label]) (Some split) label) st"
proof (cases "fs (os_path_join base_dir [split, label])")
  case None
  then show ?thesis
    by (simp add: for_norm_label_def os_path_exists_def folder_entries_def)
next
  case (Some nd)
  with assms obtain names where "nd = Dir names" by (cases nd) auto
  with Some show ?thesis
    by (simp add: for_norm_label_def os_path_exists_def os_listdir_def folder_entries_def
        for_norm_files_entries)
qed

lemma release_in_wild_label_entries:
  assumes "fs (os_path_join base_dir [label]) \<noteq> Some File"
  shows "release_in_wild_label lib fs base_dir st label =
           for_each (entry_step lib)
             (folder_entries fs (os_path_join base_dir [label]) None label) st"
proof (cases "fs (os_path_join base_dir [label])")
  case None
  then show ?thesis
    by (simp add: release_in_wild_label_def os_path_exists_def folder_entries_def)
next
  case (Some nd)
  with assms obtain names where "nd = Dir names" by (cases nd) auto
  with Some show ?thesis
    by (simp add: release_in_wild_label_def os_path_exists_def os_listdir_def folder_entries_def
        release_in_wild_files_entries)
qed

lemma for_norm_loops_entries:
  assumes "is_layout fs (for_norm_folders base_dir)"
  shows "for_each (for_norm_split lib fs base_dir) splits st =
           for_each (entry_step lib) (for_norm_entries fs base_dir) st"
proof -
  have split: "for_norm_split lib fs base_dir s split =
      for_each (entry_step lib)
        (concat (map (\<lambda>label.
           folder_entries fs (os_path_join base_dir [split, label]) (Some split) label)
           (keys labels))) s"
    if "split \<in> set splits" for s split
  proof -
    have "for_norm_split lib fs base_dir s split =
        for_each (\<lambda>s label. for_each (entry_step lib)
          (folder_entries fs (os_path_join base_dir [split, label]) (Some split) label) s)
          (keys labels) s"
      unfolding for_norm_split_def
      by (rule for_each_cong)
         (rule for_norm_label_entries, rule is_layout_for_norm [OF assms that])
    then show ?thesis by (simp only: for_each_concat)
  qed
  have "for_each (for_norm_split lib fs base_dir) splits st =
      for_each (\<lambda>s split. for_each (entry_step lib)
        (concat (map (\<lambda>label.
           folder_entries fs (os_path_join base_dir [split, label]) (Some split) label)
           (keys labels))) s) splits st"
    by (rule for_each_cong) (rule split)
  then show ?thesis by (simp only: for_each_concat for_norm_entries_def)
qed

lemma release_in_wild_loops_entries:
  assumes "is_layout fs (release_in_wild_folders base_dir)"
  shows "for_each (release_in_wild_label lib fs base_dir) (keys labels) st =
           for_each (entry_step lib) (release_in_wild_entries fs base_dir) st"
proof -
  have "for_each (release_in_wild_label lib fs base_dir) (keys labels) st =
      for_each (\<lambda>s label. for_each (entry_step lib)
        (folder_entries fs (os_path_join base_dir [label]) None label) s) (keys labels) st"
    by (rule for_each_cong)
       (rule release_in_wild_label_entries, rule is_layout_release_in_wild [OF assms])
  then show ?thesis by (simp only: for_each_concat release_in_wild_entries_def)
qed

lemma entry_steps:
  assumes "\<forall>e \<in> set es. entry_label e \<in> set (keys labels)"
  shows "for_each (entry_step lib) es st =
           (case first_refusal lib (error_log st) es of
              None \<Rightarrow>
                Inr (st\<lparr>all_features := all_features st @ feature_rows lib es,
                       error_log := error_log st @ failure_lines lib es,
                       progress_n := progress_n st + length es\<rparr>)
            | Some err \<Rightarrow> Inl err)"
  using assms
proof (induction es arbitrary: st)
  case Nil
  then show ?case by (simp add: feature_rows_def failure_lines_def)
next
  case (Cons e es)
  from Cons.prems have "entry_label e \<in> set (keys labels)" by simp
  from labels_keys [OF this] obtain code where code: "labels_get (entry_label e) = Inr code"
    by (auto simp: labels_get_def)
  from Cons.prems have rest: "\<forall>e \<in> set es. entry_label e \<in> set (keys labels)" by simp
  show ?case
  proof (cases "extract_features_try lib (entry_path e)")
    case (Inl msg)
    show ?thesis
    proof (cases "log_append lib (error_log st)
        (''Error processing '' @ entry_path e @ '': '' @ msg @ [CHR 0x0A])")
      case (Some err)
      with Inl have "entry_step lib st e = Inl err"
        by (simp add: entry_step_def log_line_def)
      with Inl Some show ?thesis by simp
    next
      case None
      with Inl have "entry_step lib st e =
          Inr (st\<lparr>error_log := error_log st @
                   [''Error processing '' @ entry_path e @ '': '' @ msg @ [CHR 0x0A]],
                 progress_n := progress_n st + 1\<rparr>)"
        by (simp add: entry_step_def log_line_def)
      with Inl None show ?thesis
        by (simp add: Cons.IH [OF rest] feature_rows_def failure_lines_def
            split: option.splits)
    qed
  next
    case (Inr d)
    then have "entry_step lib st e =
        Inr (st\<lparr>all_features := all_features st @ [entry_row e code d],
               progress_n := progress_n st + 1\<rparr>)"
      by (simp add: entry_step_def code)
    with Inr show ?thesis
      by (simp add: code Cons.IH [OF rest] feature_rows_def failure_lines_def
          split: option.splits)
  qed
qed

lemma first_refusal_none:
  "\<forall>content text. log_append lib content text = None \<Longrightarrow> first_refusal lib log es = None"
  by (induction es arbitrary: log) (auto split: sum.splits)




lemma folder_entries_label: "e \<in> set (folder_entries fs p split label) \<Longrightarrow> entry_label e = label"
  by (auto simp: folder_entries_def split: option.splits node.splits)

lemma for_norm_entries_labels:
  "\<forall>e \<in> set (for_norm_entries fs base_dir). entry_label e \<in> set (keys labels)"
  by (auto simp: for_norm_entries_def dest: folder_entries_label)

lemma release_in_wild_entries_labels:
  "\<forall>e \<in> set (release_in_wild_entries fs base_dir). entry_label e \<in> set (keys labels)"
  by (auto simp: release_in_wild_entries_def dest: folder_entries_label)

lemma for_norm_outcome:
  assumes "is_layout fs (for_norm_folders base_dir)"
  shows "\<exists>total_files.
           total_files_for_norm fs base_dir = Inr total_files \<and>
           process_audio_files_for_norm lib fs log base_dir =
             (case first_refusal lib log (for_norm_entries fs base_dir) of
                None \<Rightarrow>
                  Inr \<lparr>all_features = feature_rows lib (for_norm_entries fs base_dir),
                       error_log = log @ failure_lines lib (for_norm_entries fs base_dir),
                       progress_total = total_files,
                       progress_n = length (for_norm_entries fs base_dir)\<rparr>
              | Some err \<Rightarrow> Inl err)"
proof -
  from listing_size_layout [OF assms] obtain total_files where
    t: "total_files_for_norm fs base_dir = Inr total_files"
    unfolding total_files_for_norm_def by blast
  show ?thesis
    by (simp add: t process_audio_files_for_norm_def for_norm_loops_entries [OF assms]
        entry_steps [OF for_norm_entries_labels] split: option.splits)
qed

lemma release_in_wild_outcome:
  assumes "is_layout fs (release_in_wild_folders base_dir)"
  shows "\<exists>total_files.
           total_files_release_in_wild fs base_dir = Inr total_files \<and>
           process_audio_files_release_in_wild lib fs log base_dir =
             (case first_refusal lib log (release_in_wild_entries fs base_dir) of
                None \<Rightarrow>
                  Inr \<lparr>all_features = feature_rows lib (release_in_wild_entries fs base_dir),
                       error_log = log @ failure_lines lib (release_in_wild_entries fs base_dir),
                       progress_total = total_files,
                       progress_n = length (release_in_wild_entries fs base_dir)\<rparr>
              | Some err \<Rightarrow> Inl err)"
proof -
  from listing_size_layout [OF assms] obtain total_files where
    t: "total_files_release_in_wild fs base_dir = Inr total_files"
    unfolding total_files_release_in_wild_def by blast
  show ?thesis
    by (simp add: t process_audio_files_release_in_wild_def
        release_in_wild_loops_entries [OF assms] entry_steps [OF release_in_wild_entries_labels]
        split: option.splits)
qed

lemma for_norm_result:
  assumes "is_layout fs (for_norm_folders base_dir)"
    and "\<forall>content text. log_append lib content text = None"
  shows "\<exists>total_files.
           total_files_for_norm fs base_dir = Inr total_files \<and>
           process_audio_files_for_norm lib fs log base_dir =
             Inr \<lparr>all_features = feature_rows lib (for_norm_entries fs base_dir),
                  error_log = log @ failure_lines lib (for_norm_entries fs base_dir),
                  progress_total = total_files,
                  progress_n = length (for_norm_entries fs base_dir)\<rparr>"
  using for_norm_outcome [OF assms(1), of lib log]
  by (simp add: first_refusal_none [OF assms(2)])

lemma release_in_wild_result:
  assumes "is_layout fs (release_in_wild_folders base_dir)"
    and "\<forall>content text. log_append lib content text = None"
  shows "\<exists>total_files.
           total_files_release_in_wild fs base_dir = Inr total_files \<and>
           process_audio_files_release_in_wild lib fs log base_dir =
             Inr \<lparr>all_features = feature_rows lib (release_in_wild_entries fs base_dir),
                  error_log = log @ failure_lines lib (release_in_wild_entries fs base_dir),
                  progress_total = total_files,
                  progress_n = length (release_in_wild_entries fs base_dir)\<rparr>"
  using release_in_wild_outcome [OF assms(1), of lib log]
  by (simp add: first_refusal_none [OF assms(2)])

lemma for_norm_returns:
  assumes "is_layout fs (for_norm_folders base_dir)"
    and "process_audio_files_for_norm lib fs log base_dir = Inr st"
  shows "progress_n st = length (for_norm_entries fs base_dir)"
  using for_norm_outcome [OF assms(1), of lib log] assms(2)
  by (auto split: option.splits)

lemma release_in_wild_returns:
  assumes "is_layout fs (release_in_wild_folders base_dir)"
    and "process_audio_files_release_in_wild lib fs log base_dir = Inr st"
  shows "progress_n st = length (release_in_wild_entries fs base_dir)"
  using release_in_wild_outcome [OF assms(1), of lib log] assms(2)
  by (auto split: option.splits)

section \<open>The batch as a whole\<close>


lemma demo_folders:
  "for_norm_folders ''data'' =
     [''data/training/fake'', ''data/training/real'', ''data/validation/fake'',
      ''data/validation/real'', ''data/testing/fake'', ''data/testing/real'']"
  "release_in_wild_folders ''wild'' = [''wild/fake'', ''wild/real'']"
  by (simp_all add: for_norm_folders_def release_in_wild_folders_def splits_def labels_def
      keys_def os_path_join_def join_step_def startswith_def endswith_def)

lemma demo_fs_simps:
  "demo_fs ''data/training/fake'' = Some (Dir [''a.wav'', ''b.wav'', ''notes.txt''])"
  "demo_fs ''data/training/real'' = Some (Dir [''c.wav''])"
  "demo_fs ''data/validation/fake'' = None"
  "demo_fs ''data/validation/real'' = None"
  "demo_fs ''data/testing/fake'' = None"
  "demo_fs ''data/testing/real'' = None"
  "demo_fs ''wild/fake'' = Some (Dir [])"
  "demo_fs ''wild/real'' = Some (Dir [''d.wav''])"
  by (simp_all add: demo_fs_def)

lemma demo_layout:
  "is_layout demo_fs (for_norm_folders ''data'')"
  "is_layout demo_fs (release_in_wild_folders ''wild'')"
  by (simp_all add: demo_folders is_layout_def demo_fs_simps)

lemma demo_joins:
  "os_path_join ''data'' [''training'', ''fake''] = ''data/training/fake''"
  "os_path_join ''data'' [''training'', ''real''] = ''data/training/real''"
  "os_path_join ''data'' [''validation'', ''fake''] = ''data/validation/fake''"
  "os_path_join ''data'' [''validation'', ''real''] = ''data/validation/real''"
  "os_path_join ''data'' [''testing'', ''fake''] = ''data/testing/fake''"
  "os_path_join ''data'' [''testing'', ''real''] = ''data/testing/real''"
  "os_path_join ''wild'' [''fake''] = ''wild/fake''"
  "os_path_join ''wild'' [''real''] = ''wild/real''"
  by (simp_all add: os_path_join_def join_step_def startswith_def endswith_def)

lemma demo_entries:
  "length (for_norm_entries demo_fs ''data'') = 3"
  "length (release_in_wild_entries demo_fs ''wild'') = 1"
  by (simp_all add: length_for_norm_entries length_release_in_wild_entries
      length_folder_entries splits_def labels_def keys_def demo_joins demo_fs_simps demo_is_wav)

lemma demo_labels: "map_of labels ''fake'' = Some 0" "map_of labels ''real'' = Some 1"
  by (simp_all add: labels_def)

lemma demo_total_files:
  "total_files_for_norm demo_fs ''data'' = Inr 4"
  "total_files_release_in_wild demo_fs ''wild'' = Inr 1"
  by (simp_all add: total_files_for_norm_def total_files_release_in_wild_def demo_folders
      listing_size_def os_path_exists_def os_listdir_def demo_fs_simps)

lemma demo_for_norm_run:
  "process_audio_files_for_norm demo_lib demo_fs [] ''data'' =
     Inr \<lparr>all_features = [demo_row ''a.wav'' ''training'' ''fake'' 0,
                            demo_row ''c.wav'' ''training'' ''real'' 1],
          error_log = [''Error processing data/training/fake/b.wav: corrupt file'' @ [CHR 0x0A]],
          progress_total = 4, progress_n = 3\<rparr>"
  by (simp add: process_audio_files_for_norm_def demo_total_files splits_def labels_def keys_def
      for_norm_split_def for_norm_label_def demo_joins demo_fs_simps os_path_exists_def
      os_listdir_def demo_is_wav demo_paths demo_try_a demo_try_b demo_try_c demo_row_def
      for_norm_file_skip demo_log_append log_line_def
      for_norm_file_ok [OF demo_is_wav(1) _ demo_labels(1)]
      for_norm_file_fail [OF demo_is_wav(2)]
      for_norm_file_ok [OF demo_is_wav(3) _ demo_labels(2)])

lemma demo_release_in_wild_run:
  "process_audio_files_release_in_wild demo_lib demo_fs [] ''wild'' =
     Inr \<lparr>all_features = [demo_flat_row ''d.wav'' ''real'' 1],
          error_log = [], progress_total = 1, progress_n = 1\<rparr>"
  by (simp add: process_audio_files_release_in_wild_def demo_total_files labels_def keys_def
      release_in_wild_label_def demo_joins demo_fs_simps os_path_exists_def
      os_listdir_def demo_is_wav demo_paths demo_try_d demo_flat_row_def
      release_in_wild_file_ok [OF demo_is_wav(4) _ demo_labels(2)])




section \<open>Counting\<close>

lemma count_folder_Inr:
  assumes "fs p \<noteq> Some File"
  shows "count_folder fs p =
           Inr (case fs p of Some (Dir names) \<Rightarrow> length (filter is_wav names) | _ \<Rightarrow> 0)"
proof (cases "fs p")
  case None
  then show ?thesis by (simp add: count_folder_def os_path_exists_def)
next
  case (Some nd)
  with assms obtain names where "nd = Dir names" by (cases nd) auto
  with Some show ?thesis by (simp add: count_folder_def os_path_exists_def os_listdir_def)
qed

lemma map_of_tabulate: "k \<in> set ks \<Longrightarrow> map_of (map (\<lambda>k. (k, f k)) ks) k = Some (f k)"
  by (induction ks) auto

lemma count_for_norm:
  assumes "is_layout fs (for_norm_folders base_dir)"
  shows "count_files_in_dataset fs base_dir (Some splits) labels =
     Inr (map (\<lambda>split. (split, PerLabel (map (\<lambda>label.
              (label, length (folder_entries fs (os_path_join base_dir [split, label])
                                (Some split) label))) (keys labels)))) splits,
          length (for_norm_entries fs base_dir))"
proof -
  have cells:
    "fs (os_path_join base_dir [''training'', ''fake'']) \<noteq> Some File"
    "fs (os_path_join base_dir [''training'', ''real'']) \<noteq> Some File"
    "fs (os_path_join base_dir [''validation'', ''fake'']) \<noteq> Some File"
    "fs (os_path_join base_dir [''validation'', ''real'']) \<noteq> Some File"
    "fs (os_path_join base_dir [''testing'', ''fake'']) \<noteq> Some File"
    "fs (os_path_join base_dir [''testing'', ''real'']) \<noteq> Some File"
    using assms
    by (simp_all add: is_layout_def for_norm_folders_def splits_def labels_def keys_def)
  show ?thesis
    unfolding length_for_norm_entries length_folder_entries
    using cells
    by (simp add: count_files_in_dataset_def count_split_def count_label_def
        splits_def labels_def keys_def count_folder_Inr)
qed

lemma count_release_in_wild:
  assumes "is_layout fs (release_in_wild_folders base_dir)"
  shows "count_files_in_dataset fs base_dir None labels =
     Inr (map (\<lambda>label.
              (label, Count (length (folder_entries fs (os_path_join base_dir [label]) None label))))
            (keys labels),
          length (release_in_wild_entries fs base_dir))"
proof -
  have cells:
    "fs (os_path_join base_dir [''fake'']) \<noteq> Some File"
    "fs (os_path_join base_dir [''real'']) \<noteq> Some File"
    using assms
    by (simp_all add: is_layout_def release_in_wild_folders_def labels_def keys_def)
  show ?thesis
    unfolding length_release_in_wild_entries length_folder_entries
    using cells
    by (simp add: count_files_in_dataset_def count_flat_def labels_def keys_def
        count_folder_Inr)
qed

lemma sum_for_norm_counts:
  "file_counts_sum (map (\<lambda>split. (split, PerLabel (map (\<lambda>label. (label, c split label)) ls))) ss)
     = sum_list (map (\<lambda>split. sum_list (map (\<lambda>label. c split label) ls)) ss)"
  by (simp add: file_counts_sum_def count_value_sum_def comp_def)

lemma sum_flat_counts:
  "file_counts_sum (map (\<lambda>label. (label, Count (c label))) ls) = sum_list (map c ls)"
  by (simp add: file_counts_sum_def count_value_sum_def comp_def)

lemma folder_entries_absent: "fs p = None \<Longrightarrow> folder_entries fs p split label = []"
  by (simp add: folder_entries_def)

text \<open>
  Claim C6. On every layout whose split/label folders (label folders in the flat mode) are
  directories or absent, \<open>count_files_in_dataset\<close> returns without an error; its grand
  total is the sum of the counts in \<open>file_counts\<close>; every cell holds the number of entries
  of its folder, which is 0 for an absent folder; and the total is the number of entries
  of the full traversal, which is also where the progress counter of the batch function
  ends whenever that function returns, whatever the library does; and it returns whenever
  the error log accepts every line.
\<close>

theorem count_total_matches_traversal:
  "(is_layout fs (for_norm_folders base_dir) \<longrightarrow>
      (\<exists>file_counts total_files.
         count_files_in_dataset fs base_dir (Some splits) labels = Inr (file_counts, total_files) \<and>
         total_files = file_counts_sum file_counts \<and>
         total_files = length (for_norm_entries fs base_dir) \<and>
         (\<forall>split \<in> set splits. \<forall>label \<in> set (keys labels).
            \<exists>d. map_of file_counts split = Some (PerLabel d) \<and>
                map_of d label =
                  Some (length (folder_entries fs (os_path_join base_dir [split, label])
                                  (Some split) label)) \<and>
                (fs (os_path_join base_dir [split, label]) = None \<longrightarrow> map_of d label = Some 0)) \<and>
         (\<forall>st. process_audio_files_for_norm lib fs log base_dir = Inr st \<longrightarrow>
               progress_n st = total_files) \<and>
         ((\<forall>content text. log_append lib content text = None) \<longrightarrow>
            (\<exists>st. process_audio_files_for_norm lib fs log base_dir = Inr st \<and>
                  progress_n st = total_files)))) \<and>
   (is_layout fs (release_in_wild_folders base_dir) \<longrightarrow>
      (\<exists>file_counts total_files.
         count_files_in_dataset fs base_dir None labels = Inr (file_counts, total_files) \<and>
         total_files = file_counts_sum file_counts \<and>
         total_files = length (release_in_wild_entries fs base_dir) \<and>
         (\<forall>label \<in> set (keys labels).
            map_of file_counts label =
              Some (Count (length (folder_entries fs (os_path_join base_dir [label]) None label))) \<and>
            (fs (os_path_join base_dir [label]) = None \<longrightarrow>
               map_of file_counts label = Some (Count 0))) \<and>
         (\<forall>st. process_audio_files_release_in_wild lib fs log base_dir = Inr st \<longrightarrow>
               progress_n st = total_files) \<and>
         ((\<forall>content text. log_append lib content text = None) \<longrightarrow>
            (\<exists>st. process_audio_files_release_in_wild lib fs log base_dir = Inr st \<and>
                  progress_n st = total_files))))"
proof (intro conjI impI)
  assume layout: "is_layout fs (for_norm_folders base_dir)"
  define cnt where "cnt = (\<lambda>split label.
    length (folder_entries fs (os_path_join base_dir [split, label]) (Some split) label))"
  define file_counts where "file_counts =
    map (\<lambda>split. (split, PerLabel (map (\<lambda>label. (label, cnt split label)) (keys labels)))) splits"
  have c: "count_files_in_dataset fs base_dir (Some splits) labels =
      Inr (file_counts, length (for_norm_entries fs base_dir))"
    unfolding file_counts_def cnt_def by (rule count_for_norm [OF layout])
  have s: "length (for_norm_entries fs base_dir) = file_counts_sum file_counts"
    unfolding file_counts_def sum_for_norm_counts length_for_norm_entries cnt_def ..
  have cell: "\<exists>d. map_of file_counts split = Some (PerLabel d) \<and>
                map_of d label = Some (cnt split label) \<and>
                (fs (os_path_join base_dir [split, label]) = None \<longrightarrow> map_of d label = Some 0)"
    if "split \<in> set splits" "label \<in> set (keys labels)" for split label
  proof -
    have 1: "map_of file_counts split =
        Some (PerLabel (map (\<lambda>label. (label, cnt split label)) (keys labels)))"
      unfolding file_counts_def using that(1) by (rule map_of_tabulate)
    have 2: "map_of (map (\<lambda>label. (label, cnt split label)) (keys labels)) label
        = Some (cnt split label)"
      using that(2) by (rule map_of_tabulate)
    have 3: "fs (os_path_join base_dir [split, label]) = None \<longrightarrow> cnt split label = 0"
      by (simp add: cnt_def folder_entries_absent)
    from 1 2 3 show ?thesis by auto
  qed
  have r: "\<forall>st. process_audio_files_for_norm lib fs log base_dir = Inr st \<longrightarrow>
               progress_n st = length (for_norm_entries fs base_dir)"
    using for_norm_returns [OF layout] by blast
  have r': "(\<forall>content text. log_append lib content text = None) \<longrightarrow>
      (\<exists>st. process_audio_files_for_norm lib fs log base_dir = Inr st \<and>
            progress_n st = length (for_norm_entries fs base_dir))"
    using for_norm_result [OF layout, of lib log] by force
  from c s cell r r'
  show "\<exists>file_counts total_files.
         count_files_in_dataset fs base_dir (Some splits) labels = Inr (file_counts, total_files) \<and>
         total_files = file_counts_sum file_counts \<and>
         total_files = length (for_norm_entries fs base_dir) \<and>
         (\<forall>split \<in> set splits. \<forall>label \<in> set (keys labels).
            \<exists>d. map_of file_counts split = Some (PerLabel d) \<and>
                map_of d label =
                  Some (length (folder_entries fs (os_path_join base_dir [split, label])
                                  (Some split) label)) \<and>
                (fs (os_path_join base_dir [split, label]) = None \<longrightarrow> map_of d label = Some 0)) \<and>
         (\<forall>st. process_audio_files_for_norm lib fs log base_dir = Inr st \<longrightarrow>
               progress_n st = total_files) \<and>
         ((\<forall>content text. log_append lib content text = None) \<longrightarrow>
            (\<exists>st. process_audio_files_for_norm lib fs log base_dir = Inr st \<and>
                  progress_n st = total_files))"
    unfolding cnt_def by blast
next
  assume layout: "is_layout fs (release_in_wild_folders base_dir)"
  define cnt where "cnt = (\<lambda>label.
    length (folder_entries fs (os_path_join base_dir [label]) None label))"
  define file_counts where "file_counts = map (\<lambda>label. (label, Count (cnt label))) (keys labels)"
  have c: "count_files_in_dataset fs base_dir None labels =
      Inr (file_counts, length (release_in_wild_entries fs base_dir))"
    unfolding file_counts_def cnt_def by (rule count_release_in_wild [OF layout])
  have s: "length (release_in_wild_entries fs base_dir) = file_counts_sum file_counts"
    unfolding file_counts_def sum_flat_counts length_release_in_wild_entries cnt_def ..
  have cell: "map_of file_counts label = Some (Count (cnt label)) \<and>
                (fs (os_path_join base_dir [label]) = None \<longrightarrow>
                   map_of file_counts label = Some (Count 0))"
    if "label \<in> set (keys labels)" for label
  proof -
    have 1: "map_of file_counts label = Some (Count (cnt label))"
      unfolding file_counts_def using that by (rule map_of_tabulate)
    have 3: "fs (os_path_join base_dir [label]) = None \<longrightarrow> cnt label = 0"
      by (simp add: cnt_def folder_entries_absent)
    from 1 3 show ?thesis by auto
  qed
  have r: "\<forall>st. process_audio_files_release_in_wild lib fs log base_dir = Inr st \<longrightarrow>
               progress_n st = length (release_in_wild_entries fs base_dir)"
    using release_in_wild_returns [OF layout] by blast
  have r': "(\<forall>content text. log_append lib content text = None) \<longrightarrow>
      (\<exists>st. process_audio_files_release_in_wild lib fs log base_dir = Inr st \<and>
            progress_n st = length (release_in_wild_entries fs base_dir))"
    using release_in_wild_result [OF layout, of lib log] by force
  from c s cell r r'
  show "\<exists>file_counts total_files.
         count_files_in_dataset fs base_dir None labels = Inr (file_counts, total_files) \<and>
         total_files = file_counts_sum file_counts \<and>
         total_files = length (release_in_wild_entries fs base_dir) \<and>
         (\<forall>label \<in> set (keys labels).
            map_of file_counts label =
              Some (Count (length (folder_entries fs (os_path_join base_dir [label]) None label))) \<and>
            (fs (os_path_join base_dir [label]) = None \<longrightarrow>
               map_of file_counts label = Some (Count 0))) \<and>
         (\<forall>st. process_audio_files_release_in_wild lib fs log base_dir = Inr st \<longrightarrow>
               progress_n st = total_files) \<and>
         ((\<forall>content text. log_append lib content text = None) \<longrightarrow>
            (\<exists>st. process_audio_files_release_in_wild lib fs log base_dir = Inr st \<and>
                  progress_n st = total_files))"
    unfolding cnt_def by blast
qed

text \<open>The theorem on the small dataset; the folder \<open>data/validation/fake\<close> is absent.\<close>

theorem count_total_matches_traversal_witness:
  "is_layout demo_fs (for_norm_folders ''data'') \<and>
   (\<exists>file_counts.
      count_files_in_dataset demo_fs ''data'' (Some splits) labels = Inr (file_counts, 3) \<and>
      file_counts_sum file_counts = 3 \<and>
      (\<exists>d. map_of file_counts ''validation'' = Some (PerLabel d) \<and> map_of d ''fake'' = Some 0) \<and>
      (\<exists>st. process_audio_files_for_norm demo_lib demo_fs [] ''data'' = Inr st \<and>
            progress_n st = 3)) \<and>
   is_layout demo_fs (release_in_wild_folders ''wild'') \<and>
   (\<exists>file_counts.
      count_files_in_dataset demo_fs ''wild'' None labels = Inr (file_counts, 1) \<and>
      file_counts_sum file_counts = 1 \<and>
      (\<exists>st. process_audio_files_release_in_wild demo_lib demo_fs [] ''wild'' = Inr st \<and>
            progress_n st = 1))"
proof -
  have accepts: "\<forall>content text. log_append demo_lib content text = None"
    by (simp add: demo_log_append)
  from count_total_matches_traversal [of demo_fs "''data''" demo_lib "[]"] demo_layout(1)
    accepts
  obtain file_counts total_files where
    c: "count_files_in_dataset demo_fs ''data'' (Some splits) labels = Inr (file_counts, total_files)"
      "total_files = file_counts_sum file_counts"
      "total_files = length (for_norm_entries demo_fs ''data'')"
    and cells: "\<forall>split \<in> set splits. \<forall>label \<in> set (keys labels).
            \<exists>d. map_of file_counts split = Some (PerLabel d) \<and>
                map_of d label =
                  Some (length (folder_entries demo_fs (os_path_join ''data'' [split, label])
                                  (Some split) label)) \<and>
                (demo_fs (os_path_join ''data'' [split, label]) = None \<longrightarrow> map_of d label = Some 0)"
    and r: "\<exists>st. process_audio_files_for_norm demo_lib demo_fs [] ''data'' = Inr st \<and>
               progress_n st = total_files"
    by blast
  have t: "total_files = 3" using c(3) by (simp add: demo_entries)
  have "''validation'' \<in> set splits" "''fake'' \<in> set (keys labels)"
    by (simp_all add: splits_def labels_def keys_def)
  with cells have "\<exists>d. map_of file_counts ''validation'' = Some (PerLabel d) \<and>
      (demo_fs (os_path_join ''data'' [''validation'', ''fake'']) = None \<longrightarrow>
         map_of d ''fake'' = Some 0)"
    by blast
  then have cell: "\<exists>d. map_of file_counts ''validation'' = Some (PerLabel d) \<and>
      map_of d ''fake'' = Some 0"
    by (simp add: demo_joins demo_fs_simps)
  have first: "\<exists>file_counts.
      count_files_in_dataset demo_fs ''data'' (Some splits) labels = Inr (file_counts, 3) \<and>
      file_counts_sum file_counts = 3 \<and>
      (\<exists>d. map_of file_counts ''validation'' = Some (PerLabel d) \<and> map_of d ''fake'' = Some 0) \<and>
      (\<exists>st. process_audio_files_for_norm demo_lib demo_fs [] ''data'' = Inr st \<and>
            progress_n st = 3)"
    using c(1,2) cell r unfolding t by metis
  from count_total_matches_traversal [of demo_fs "''wild''" demo_lib "[]"] demo_layout(2)
    accepts
  obtain file_counts' total_files' where
    c': "count_files_in_dataset demo_fs ''wild'' None labels = Inr (file_counts', total_files')"
      "total_files' = file_counts_sum file_counts'"
      "total_files' = length (release_in_wild_entries demo_fs ''wild'')"
    and r': "\<exists>st. process_audio_files_release_in_wild demo_lib demo_fs [] ''wild'' = Inr st \<and>
               progress_n st = total_files'"
    by blast
  have t': "total_files' = 1" using c'(3) by (simp add: demo_entries)
  have second: "\<exists>file_counts.
      count_files_in_dataset demo_fs ''wild'' None labels = Inr (file_counts, 1) \<and>
      file_counts_sum file_counts = 1 \<and>
      (\<exists>st. process_audio_files_release_in_wild demo_lib demo_fs [] ''wild'' = Inr st \<and>
            progress_n st = 1)"
    using c'(1,2) r' unfolding t' by metis
  from first second demo_layout show ?thesis by blast
qed

section \<open>The small dataset, run\<close>

lemma demo_count:
  "count_files_in_dataset demo_fs ''data'' (Some splits) labels =
     Inr ([(''training'', PerLabel [(''fake'', 2), (''real'', 1)]),
           (''validation'', PerLabel [(''fake'', 0), (''real'', 0)]),
           (''testing'', PerLabel [(''fake'', 0), (''real'', 0)])], 3)"
  "count_files_in_dataset demo_fs ''wild'' None labels =
     Inr ([(''fake'', Count 0), (''real'', Count 1)], 1)"
  by (simp_all add: count_files_in_dataset_def count_split_def count_label_def count_flat_def
      count_folder_def splits_def labels_def keys_def demo_joins demo_fs_simps
      os_path_exists_def os_listdir_def demo_is_wav)

text \<open>
  Claim C7. The total the batch function computes for its progress bar is the number of
  all names in the listings, not the number of names that end in \<open>.wav\<close>. On the small
  dataset, whose folder \<open>data/training/fake\<close> also holds a text file, the progress bar's
  total is 4 while \<open>count_files_in_dataset\<close> reports 3, and the progress counter ends at 3.
\<close>

theorem progress_total_counts_every_name:
  "total_files_for_norm demo_fs ''data'' = Inr 4 \<and>
   count_files_in_dataset demo_fs ''data'' (Some splits) labels =
     Inr ([(''training'', PerLabel [(''fake'', 2), (''real'', 1)]),
           (''validation'', PerLabel [(''fake'', 0), (''real'', 0)]),
           (''testing'', PerLabel [(''fake'', 0), (''real'', 0)])], 3) \<and>
   process_audio_files_for_norm demo_lib demo_fs [] ''data'' =
     Inr \<lparr>all_features = [demo_row ''a.wav'' ''training'' ''fake'' 0,
                            demo_row ''c.wav'' ''training'' ''real'' 1],
          error_log = [''Error processing data/training/fake/b.wav: corrupt file'' @ [CHR 0x0A]],
          progress_total = 4, progress_n = 3\<rparr>"
  using demo_total_files(1) demo_count(1) demo_for_norm_run by blast

section \<open>The exported table\<close>

lemma for_each_preserves:
  assumes "\<And>x s s'. body s x = Inr s' \<Longrightarrow> P s \<Longrightarrow> P s'"
  shows "for_each body xs s = Inr s' \<Longrightarrow> P s \<Longrightarrow> P s'"
proof (induction xs arbitrary: s)
  case Nil
  then show ?case by simp
next
  case (Cons x xs)
  from Cons.prems(1) obtain s1 where 1: "body s x = Inr s1" and 2: "for_each body xs s1 = Inr s'"
    by (auto split: sum.splits)
  from assms [OF 1 Cons.prems(2)] have "P s1" .
  with Cons.IH [OF 2] show ?case .
qed

lemma for_norm_file_rows:
  assumes "for_norm_file lib folder split label st file = Inr st'" "rows_have FOR_NORM_COLUMNS st"
  shows "rows_have FOR_NORM_COLUMNS st'"
proof (cases "is_wav file")
  case False
  with assms show ?thesis by (simp add: for_norm_file_skip)
next
  case True
  show ?thesis
  proof (cases "extract_features_try lib (os_path_join folder [file])")
    case (Inl e)
    with assms True show ?thesis
      by (auto simp: for_norm_file_fail rows_have_def split: option.splits)
  next
    case (Inr d)
    show ?thesis
    proof (cases "map_of labels label")
      case None
      with assms(1) True Inr try_nonempty [OF Inr] show ?thesis
        by (simp add: for_norm_file_def extract_features_def labels_get_def)
    next
      case (Some code)
      have "keys (d @ [(''filename'', CStr file), (''split'', CStr split), (''label'', CStr label),
                  (''LABEL'', CInt code)]) = FOR_NORM_COLUMNS"
        by (simp add: keys_append keys_Cons keys_Nil extract_features_try_keys [OF Inr]
            FOR_NORM_COLUMNS_def)
      with assms show ?thesis
        unfolding for_norm_file_ok [OF True Inr Some] by (auto simp: rows_have_def)
    qed
  qed
qed

lemma release_in_wild_file_rows:
  assumes "release_in_wild_file lib folder label st file = Inr st'"
    "rows_have RELEASE_IN_WILD_COLUMNS st"
  shows "rows_have RELEASE_IN_WILD_COLUMNS st'"
proof (cases "is_wav file")
  case False
  with assms show ?thesis by (simp add: release_in_wild_file_skip)
next
  case True
  show ?thesis
  proof (cases "extract_features_try lib (os_path_join folder [file])")
    case (Inl e)
    with assms True show ?thesis
      by (auto simp: release_in_wild_file_fail rows_have_def split: option.splits)
  next
    case (Inr d)
    show ?thesis
    proof (cases "map_of labels label")
      case None
      with assms(1) True Inr try_nonempty [OF Inr] show ?thesis
        by (simp add: release_in_wild_file_def extract_features_def labels_get_def)
    next
      case (Some code)
      have "keys (d @ [(''filename'', CStr file), (''label'', CStr label),
                  (''LABEL'', CInt code)]) = RELEASE_IN_WILD_COLUMNS"
        by (simp add: keys_append keys_Cons keys_Nil extract_features_try_keys [OF Inr]
            RELEASE_IN_WILD_COLUMNS_def)
      with assms show ?thesis
        unfolding release_in_wild_file_ok [OF True Inr Some] by (auto simp: rows_have_def)
    qed
  qed
qed

lemma for_norm_label_rows:
  assumes "for_norm_label lib fs base_dir split st label = Inr st'"
    "rows_have FOR_NORM_COLUMNS st"
  shows "rows_have FOR_NORM_COLUMNS st'"
proof (cases "os_path_exists fs (os_path_join base_dir [split, label])")
  case False
  with assms show ?thesis by (simp add: for_norm_label_def)
next
  case True
  with assms(1) obtain files where
    "for_each (for_norm_file lib (os_path_join base_dir [split, label]) split label) files st
       = Inr st'"
    by (auto simp: for_norm_label_def Let_def split: sum.splits)
  then show ?thesis
    using assms(2) by (rule for_each_preserves [rotated]) (rule for_norm_file_rows)
qed

lemma release_in_wild_label_rows:
  assumes "release_in_wild_label lib fs base_dir st label = Inr st'"
    "rows_have RELEASE_IN_WILD_COLUMNS st"
  shows "rows_have RELEASE_IN_WILD_COLUMNS st'"
proof (cases "os_path_exists fs (os_path_join base_dir [label])")
  case False
  with assms show ?thesis by (simp add: release_in_wild_label_def)
next
  case True
  with assms(1) obtain files where
    "for_each (release_in_wild_file lib (os_path_join base_dir [label]) label) files st = Inr st'"
    by (auto simp: release_in_wild_label_def Let_def split: sum.splits)
  then show ?thesis
    using assms(2) by (rule for_each_preserves [rotated]) (rule release_in_wild_file_rows)
qed

lemma for_norm_split_rows:
  assumes "for_norm_split lib fs base_dir st split = Inr st'" "rows_have FOR_NORM_COLUMNS st"
  shows "rows_have FOR_NORM_COLUMNS st'"
  using assms unfolding for_norm_split_def
  by (rule for_each_preserves [rotated]) (rule for_norm_label_rows)

lemma for_norm_rows:
  assumes "process_audio_files_for_norm lib fs log base_dir = Inr st"
  shows "rows_have FOR_NORM_COLUMNS st"
proof -
  from assms obtain total_files where
    "for_each (for_norm_split lib fs base_dir) splits
       \<lparr>all_features = [], error_log = log, progress_total = total_files, progress_n = 0\<rparr>
     = Inr st"
    by (auto simp: process_audio_files_for_norm_def split: sum.splits)
  moreover have "rows_have FOR_NORM_COLUMNS
    \<lparr>all_features = [], error_log = log, progress_total = total_files, progress_n = 0\<rparr>"
    by (simp add: rows_have_def)
  ultimately show ?thesis
    by (rule for_each_preserves [rotated]) (rule for_norm_split_rows)
qed

lemma release_in_wild_rows:
  assumes "process_audio_files_release_in_wild lib fs log base_dir = Inr st"
  shows "rows_have RELEASE_IN_WILD_COLUMNS st"
proof -
  from assms obtain total_files where
    "for_each (release_in_wild_label lib fs base_dir) (keys labels)
       \<lparr>all_features = [], error_log = log, progress_total = total_files, progress_n = 0\<rparr>
     = Inr st"
    by (auto simp: process_audio_files_release_in_wild_def split: sum.splits)
  moreover have "rows_have RELEASE_IN_WILD_COLUMNS
    \<lparr>all_features = [], error_log = log, progress_total = total_files, progress_n = 0\<rparr>"
    by (simp add: rows_have_def)
  ultimately show ?thesis
    by (rule for_each_preserves [rotated]) (rule release_in_wild_label_rows)
qed

lemma first_seen_fresh:
  "distinct (acc @ ks) \<Longrightarrow>
     foldl (\<lambda>acc k. if k \<in> set acc then acc else acc @ [k]) acc ks = acc @ ks"
  by (induction ks arbitrary: acc) auto

lemma first_seen_known:
  "set ks \<subseteq> set acc \<Longrightarrow>
     foldl (\<lambda>acc k. if k \<in> set acc then acc else acc @ [k]) acc ks = acc"
  by (induction ks arbitrary: acc) auto

lemma first_seen_same_keys:
  assumes "rows \<noteq> []" "list_all (\<lambda>r. keys r = cols) rows" "distinct cols"
  shows "first_seen (concat (map keys rows)) = cols"
proof -
  from assms(1) obtain r rs where rows: "rows = r # rs" by (cases rows) auto
  with assms(2) have r: "keys r = cols" and rs: "list_all (\<lambda>r. keys r = cols) rs" by simp_all
  from rs have sub: "set (concat (map keys rs)) \<subseteq> set cols"
    by (auto simp: list_all_iff)
  have "first_seen (concat (map keys rows)) =
      foldl (\<lambda>acc k. if k \<in> set acc then acc else acc @ [k])
        (foldl (\<lambda>acc k. if k \<in> set acc then acc else acc @ [k]) [] cols)
        (concat (map keys rs))"
    by (simp add: first_seen_def rows r)
  also have "foldl (\<lambda>acc k. if k \<in> set acc then acc else acc @ [k]) [] cols = cols"
    using first_seen_fresh [of "[]" cols] assms(3) by simp
  also have "foldl (\<lambda>acc k. if k \<in> set acc then acc else acc @ [k]) cols (concat (map keys rs))
      = cols"
    by (rule first_seen_known [OF sub])
  finally show ?thesis .
qed

lemma map_of_own_keys:
  "distinct (map fst r) \<Longrightarrow> map (map_of r) (map fst r) = map (\<lambda>(k, v). Some v) r"
proof (induction r)
  case Nil
  then show ?case by simp
next
  case (Cons kv r)
  obtain k v where kv: "kv = (k, v)" by (cases kv)
  from Cons.prems kv have fresh: "k \<notin> fst ` set r" and d: "distinct (map fst r)" by simp_all
  have "map (map_of ((k, v) # r)) (map fst r) = map (map_of r) (map fst r)"
    using fresh by (intro map_cong) auto
  with Cons.IH [OF d] kv show ?case by simp
qed

lemma distinct_FOR_NORM_COLUMNS: "distinct FOR_NORM_COLUMNS"
  by (simp add: FOR_NORM_COLUMNS_def CANONICAL_KEYS_def)

lemma distinct_RELEASE_IN_WILD_COLUMNS: "distinct RELEASE_IN_WILD_COLUMNS"
  by (simp add: RELEASE_IN_WILD_COLUMNS_def CANONICAL_KEYS_def)

lemma pd_DataFrame_same_keys:
  assumes "rows \<noteq> []" "list_all (\<lambda>r. keys r = cols) rows" "distinct cols"
  shows "pd_DataFrame rows = \<lparr>columns = cols, data = map (map (\<lambda>(k, v). Some v)) rows\<rparr>"
proof -
  have "map (map_of r) cols = map (\<lambda>(k, v). Some v) r" if "r \<in> set rows" for r
  proof -
    from that assms(2) have k: "map fst r = cols" by (simp add: list_all_iff keys_def)
    with assms(3) have "distinct (map fst r)" by simp
    from map_of_own_keys [OF this] show ?thesis unfolding k .
  qed
  then have "map (\<lambda>r. map (map_of r) cols) rows = map (map (\<lambda>(k, v). Some v)) rows"
    by (intro map_cong) auto
  then show ?thesis
    by (simp add: pd_DataFrame_def first_seen_same_keys [OF assms])
qed

lemma csv_records_same_keys:
  assumes "rows \<noteq> []" "list_all (\<lambda>r. keys r = cols) rows" "distinct cols"
  shows "csv_records float_repr (pd_DataFrame rows) =
           cols # map (map (\<lambda>(k, v). cell_text float_repr (Some v))) rows"
  by (simp add: pd_DataFrame_same_keys [OF assms] csv_records_def comp_def case_prod_unfold)

text \<open>
  Claim C8, as amended. Whenever a batch function returns a non-empty sequence of rows,
  the columns of the exported table are the 26 canonical keys in canonical order, then
  \<open>filename\<close>, then \<open>split\<close> (for the split dataset only), then \<open>label\<close>, then the label
  code under the header \<open>LABEL\<close>; the first record of the file is this header, and every
  further record is the values of one row in that same order, row after row.
\<close>

theorem exported_column_order:
  "(process_audio_files_for_norm lib fs log base_dir = Inr st \<and> all_features st \<noteq> [] \<longrightarrow>
      columns (pd_DataFrame (all_features st)) =
        CANONICAL_KEYS @ [''filename'', ''split'', ''label'', ''LABEL''] \<and>
      (\<forall>row \<in> set (all_features st).
         keys row = CANONICAL_KEYS @ [''filename'', ''split'', ''label'', ''LABEL'']) \<and>
      csv_records float_repr (pd_DataFrame (all_features st)) =
        (CANONICAL_KEYS @ [''filename'', ''split'', ''label'', ''LABEL'']) #
        map (map (\<lambda>(k, v). cell_text float_repr (Some v))) (all_features st)) \<and>
   (process_audio_files_release_in_wild lib fs log base_dir = Inr st' \<and> all_features st' \<noteq> [] \<longrightarrow>
      columns (pd_DataFrame (all_features st')) =
        CANONICAL_KEYS @ [''filename'', ''label'', ''LABEL''] \<and>
      (\<forall>row \<in> set (all_features st').
         keys row = CANONICAL_KEYS @ [''filename'', ''label'', ''LABEL'']) \<and>
      csv_records float_repr (pd_DataFrame (all_features st')) =
        (CANONICAL_KEYS @ [''filename'', ''label'', ''LABEL'']) #
        map (map (\<lambda>(k, v). cell_text float_repr (Some v))) (all_features st'))"
proof (intro conjI impI; elim conjE)
  assume run: "process_audio_files_for_norm lib fs log base_dir = Inr st"
    and ne: "all_features st \<noteq> []"
  from for_norm_rows [OF run]
  have all: "list_all (\<lambda>r. keys r = FOR_NORM_COLUMNS) (all_features st)"
    by (simp add: rows_have_def)
  note df = pd_DataFrame_same_keys [OF ne all distinct_FOR_NORM_COLUMNS]
  show "columns (pd_DataFrame (all_features st)) =
        CANONICAL_KEYS @ [''filename'', ''split'', ''label'', ''LABEL'']"
    by (simp add: df FOR_NORM_COLUMNS_def)
  show "\<forall>row \<in> set (all_features st).
         keys row = CANONICAL_KEYS @ [''filename'', ''split'', ''label'', ''LABEL'']"
    using all by (simp add: list_all_iff FOR_NORM_COLUMNS_def)
  show "csv_records float_repr (pd_DataFrame (all_features st)) =
        (CANONICAL_KEYS @ [''filename'', ''split'', ''label'', ''LABEL'']) #
        map (map (\<lambda>(k, v). cell_text float_repr (Some v))) (all_features st)"
    using csv_records_same_keys [OF ne all distinct_FOR_NORM_COLUMNS, of float_repr]
    by (simp only: FOR_NORM_COLUMNS_def)
next
  assume run: "process_audio_files_release_in_wild lib fs log base_dir = Inr st'"
    and ne: "all_features st' \<noteq> []"
  from release_in_wild_rows [OF run]
  have all: "list_all (\<lambda>r. keys r = RELEASE_IN_WILD_COLUMNS) (all_features st')"
    by (simp add: rows_have_def)
  note df = pd_DataFrame_same_keys [OF ne all distinct_RELEASE_IN_WILD_COLUMNS]
  show "columns (pd_DataFrame (all_features st')) =
        CANONICAL_KEYS @ [''filename'', ''label'', ''LABEL'']"
    by (simp add: df RELEASE_IN_WILD_COLUMNS_def)
  show "\<forall>row \<in> set (all_features st').
         keys row = CANONICAL_KEYS @ [''filename'', ''label'', ''LABEL'']"
    using all by (simp add: list_all_iff RELEASE_IN_WILD_COLUMNS_def)
  show "csv_records float_repr (pd_DataFrame (all_features st')) =
        (CANONICAL_KEYS @ [''filename'', ''label'', ''LABEL'']) #
        map (map (\<lambda>(k, v). cell_text float_repr (Some v))) (all_features st')"
    using csv_records_same_keys [OF ne all distinct_RELEASE_IN_WILD_COLUMNS, of float_repr]
    by (simp only: RELEASE_IN_WILD_COLUMNS_def)
qed

lemma demo_results:
  "process_audio_files_for_norm demo_lib demo_fs [] ''data'' = Inr demo_for_norm_result"
  "process_audio_files_release_in_wild demo_lib demo_fs [] ''wild'' = Inr demo_release_in_wild_result"
  by (simp_all add: demo_for_norm_run demo_release_in_wild_run demo_for_norm_result_def
      demo_release_in_wild_result_def)

lemma demo_results_nonempty:
  "all_features demo_for_norm_result \<noteq> []" "all_features demo_release_in_wild_result \<noteq> []"
  by (simp_all add: demo_for_norm_result_def demo_release_in_wild_result_def)

text \<open>The theorem on the two runs of the small dataset.\<close>

theorem exported_column_order_witness:
  "process_audio_files_for_norm demo_lib demo_fs [] ''data'' = Inr demo_for_norm_result \<and>
   all_features demo_for_norm_result \<noteq> [] \<and>
   columns (pd_DataFrame (all_features demo_for_norm_result)) =
     CANONICAL_KEYS @ [''filename'', ''split'', ''label'', ''LABEL''] \<and>
   csv_records str_int (pd_DataFrame (all_features demo_for_norm_result)) =
     (CANONICAL_KEYS @ [''filename'', ''split'', ''label'', ''LABEL'']) #
     map (map (\<lambda>(k, v). cell_text str_int (Some v))) (all_features demo_for_norm_result) \<and>
   process_audio_files_release_in_wild demo_lib demo_fs [] ''wild''
     = Inr demo_release_in_wild_result \<and>
   all_features demo_release_in_wild_result \<noteq> [] \<and>
   columns (pd_DataFrame (all_features demo_release_in_wild_result)) =
     CANONICAL_KEYS @ [''filename'', ''label'', ''LABEL'']"
  using exported_column_order [of demo_lib demo_fs "[]" "''data''" demo_for_norm_result
      str_int demo_release_in_wild_result]
    exported_column_order [of demo_lib demo_fs "[]" "''wild''" demo_for_norm_result
      str_int demo_release_in_wild_result]
    demo_results demo_results_nonempty
  by blast

text \<open>
  The claim as stated names the last column \<open>labelCode\<close>. The header the export writes for
  the run of the small dataset, which has two rows, is not the list that ends in that name.
\<close>

theorem exported_header_labelCode_counterexample:
  "all_features (projr (process_audio_files_for_norm demo_lib demo_fs [] ''data'')) \<noteq> [] \<and>
   hd (csv_records str_int
         (pd_DataFrame (all_features (projr (process_audio_files_for_norm demo_lib demo_fs []
            ''data'')))))
     \<noteq> CANONICAL_KEYS @ [''filename'', ''split'', ''label'', ''labelCode'']"
proof -
  have all: "list_all (\<lambda>r. keys r = FOR_NORM_COLUMNS) (all_features demo_for_norm_result)"
    using for_norm_rows [OF demo_results(1)] by (simp add: rows_have_def)
  have "hd (csv_records str_int (pd_DataFrame (all_features demo_for_norm_result)))
      = FOR_NORM_COLUMNS"
    by (simp add: csv_records_same_keys [OF demo_results_nonempty(1) all distinct_FOR_NORM_COLUMNS])
  moreover have "FOR_NORM_COLUMNS \<noteq> CANONICAL_KEYS @ [''filename'', ''split'', ''label'', ''labelCode'']"
    by (simp add: FOR_NORM_COLUMNS_def)
  ultimately show ?thesis
    by (simp add: demo_results(1) demo_results_nonempty(1))
qed

section \<open>Exporting nothing\<close>

lemma for_norm_file_no_rows:
  assumes "\<forall>p. isl (extract_features_try lib p)"
    "for_norm_file lib folder split label st file = Inr st'" "all_features st = []"
  shows "all_features st' = []"
proof (cases "is_wav file")
  case False
  with assms show ?thesis by (simp add: for_norm_file_skip)
next
  case True
  from assms(1) obtain e where "extract_features_try lib (os_path_join folder [file]) = Inl e"
    by (metis isl_def)
  from for_norm_file_fail [OF True this] assms(2,3) show ?thesis
    by (auto split: option.splits)
qed

lemma release_in_wild_file_no_rows:
  assumes "\<forall>p. isl (extract_features_try lib p)"
    "release_in_wild_file lib folder label st file = Inr st'" "all_features st = []"
  shows "all_features st' = []"
proof (cases "is_wav file")
  case False
  with assms show ?thesis by (simp add: release_in_wild_file_skip)
next
  case True
  from assms(1) obtain e where "extract_features_try lib (os_path_join folder [file]) = Inl e"
    by (metis isl_def)
  from release_in_wild_file_fail [OF True this] assms(2,3) show ?thesis
    by (auto split: option.splits)
qed

lemma for_norm_no_rows:
  assumes fails: "\<forall>p. isl (extract_features_try lib p)"
    and run: "process_audio_files_for_norm lib fs log base_dir = Inr st"
  shows "all_features st = []"
proof -
  have label: "all_features s' = []"
    if "for_norm_label lib fs base_dir split s label = Inr s'" "all_features s = []"
    for split s label s'
  proof (cases "os_path_exists fs (os_path_join base_dir [split, label])")
    case False
    with that show ?thesis by (simp add: for_norm_label_def)
  next
    case True
    with that(1) obtain files where
      "for_each (for_norm_file lib (os_path_join base_dir [split, label]) split label) files s
         = Inr s'"
      by (auto simp: for_norm_label_def Let_def split: sum.splits)
    then show ?thesis
      using that(2) by (rule for_each_preserves [rotated]) (rule for_norm_file_no_rows [OF fails])
  qed
  have split: "all_features s' = []"
    if "for_norm_split lib fs base_dir s split = Inr s'" "all_features s = []" for split s s'
    using that unfolding for_norm_split_def
    by (rule for_each_preserves [rotated]) (rule label)
  from run obtain total_files where
    "for_each (for_norm_split lib fs base_dir) splits
       \<lparr>all_features = [], error_log = log, progress_total = total_files, progress_n = 0\<rparr>
     = Inr st"
    by (auto simp: process_audio_files_for_norm_def split: sum.splits)
  moreover have "all_features
    \<lparr>all_features = [], error_log = log, progress_total = total_files, progress_n = 0\<rparr> = []"
    by simp
  ultimately show ?thesis
    by (rule for_each_preserves [rotated]) (rule split)
qed

lemma release_in_wild_no_rows:
  assumes fails: "\<forall>p. isl (extract_features_try lib p)"
    and run: "process_audio_files_release_in_wild lib fs log base_dir = Inr st"
  shows "all_features st = []"
proof -
  have label: "all_features s' = []"
    if "release_in_wild_label lib fs base_dir s label = Inr s'" "all_features s = []"
    for s label s'
  proof (cases "os_path_exists fs (os_path_join base_dir [label])")
    case False
    with that show ?thesis by (simp add: release_in_wild_label_def)
  next
    case True
    with that(1) obtain files where
      "for_each (release_in_wild_file lib (os_path_join base_dir [label]) label) files s = Inr s'"
      by (auto simp: release_in_wild_label_def Let_def split: sum.splits)
    then show ?thesis
      using that(2)
      by (rule for_each_preserves [rotated]) (rule release_in_wild_file_no_rows [OF fails])
  qed
  from run obtain total_files where
    "for_each (release_in_wild_label lib fs base_dir) (keys labels)
       \<lparr>all_features = [], error_log = log, progress_total = total_files, progress_n = 0\<rparr>
     = Inr st"
    by (auto simp: process_audio_files_release_in_wild_def split: sum.splits)
  moreover have "all_features
    \<lparr>all_features = [], error_log = log, progress_total = total_files, progress_n = 0\<rparr> = []"
    by simp
  ultimately show ?thesis
    by (rule for_each_preserves [rotated]) (rule label)
qed

lemma empty_frame:
  "columns (pd_DataFrame []) = []" "data (pd_DataFrame []) = []"
  "csv_records float_repr (pd_DataFrame []) = [[]]"
  "csv_text float_repr (pd_DataFrame []) = [CHR 0x0A]"
  by (simp_all add: pd_DataFrame_def first_seen_def csv_records_def csv_text_def csv_line_def)

text \<open>
  Claim C10, as amended. When every file fails, a batch function that returns has
  collected no row. The data frame built from the empty list has no columns and no rows;
  the export still writes the file, and what it writes is one header record without a
  single field, that is, one line feed and nothing else: no canonical column is named and
  no row follows.
\<close>

theorem empty_export_has_no_header:
  "((\<forall>p. isl (extract_features_try lib p)) \<and>
      process_audio_files_for_norm lib fs log base_dir = Inr st \<longrightarrow> all_features st = []) \<and>
   ((\<forall>p. isl (extract_features_try lib p)) \<and>
      process_audio_files_release_in_wild lib fs log base_dir = Inr st' \<longrightarrow>
        all_features st' = []) \<and>
   columns (pd_DataFrame ([] :: (string, 'a cell) dict list)) = [] \<and>
   data (pd_DataFrame ([] :: (string, 'a cell) dict list)) = [] \<and>
   csv_records float_repr (pd_DataFrame []) = [[]] \<and>
   save_features float_repr [] csv_path out csv_path = Some [CHR 0x0A]"
  using for_norm_no_rows [of lib fs log base_dir st]
    release_in_wild_no_rows [of lib fs log base_dir st']
  by (simp add: empty_frame save_features_def to_csv_def)

lemma demo_failing_log_append: "\<forall>content text. log_append demo_failing_lib content text = None"
  by (simp add: demo_failing_lib_def demo_lib_def)

lemma demo_failing_try: "extract_features_try demo_failing_lib p = Inl ''corrupt file''"
  by (simp add: extract_features_try_def demo_failing_lib_def)

text \<open>The theorem on the small dataset, read with a library that loads no file.\<close>

theorem empty_export_has_no_header_witness:
  "(\<forall>p. isl (extract_features_try demo_failing_lib p)) \<and>
   (\<exists>st. process_audio_files_for_norm demo_failing_lib demo_fs [] ''data'' = Inr st \<and>
      all_features st = [] \<and>
      save_features str_int (all_features st) ''for_norm_features.csv'' Map.empty
        ''for_norm_features.csv'' = Some [CHR 0x0A])"
proof -
  have fails: "\<forall>p. isl (extract_features_try demo_failing_lib p)"
    by (simp add: demo_failing_try)
  from for_norm_result [OF demo_layout(1) demo_failing_log_append, of "[]"] obtain st where
    run: "process_audio_files_for_norm demo_failing_lib demo_fs [] ''data'' = Inr st"
    by blast
  from empty_export_has_no_header [of demo_failing_lib demo_fs "[]" "''data''" st _ str_int
      "''for_norm_features.csv''" Map.empty] fails run
  have "all_features st = []"
    "save_features str_int [] ''for_norm_features.csv'' Map.empty ''for_norm_features.csv''
      = Some [CHR 0x0A]"
    by blast+
  with fails run show ?thesis by auto
qed

text \<open>
  The claim as stated calls the output empty. The file written after a run of the small
  dataset in which no file loads is not the empty file: it holds the line feed.
\<close>

theorem empty_export_not_empty_counterexample:
  "save_features str_int
     (all_features (projr (process_audio_files_for_norm demo_failing_lib demo_fs [] ''data'')))
     ''for_norm_features.csv'' Map.empty ''for_norm_features.csv'' \<noteq> Some []"
proof -
  have fails: "\<forall>p. isl (extract_features_try demo_failing_lib p)"
    by (simp add: demo_failing_try)
  from for_norm_result [OF demo_layout(1) demo_failing_log_append, of "[]"] obtain st where
    run: "process_audio_files_for_norm demo_failing_lib demo_fs [] ''data'' = Inr st"
    by blast
  from for_norm_no_rows [OF fails run] have "all_features st = []" .
  then show ?thesis
    by (simp add: run save_features_def to_csv_def empty_frame)
qed

section \<open>Scenarios\<close>

lemma scenario_fs_simps:
  "scenario_fs ''data/training/fake'' = Some (Dir [''a.wav'', ''b.wav''])"
  "scenario_fs ''data/training/real'' = Some (Dir [''c.wav''])"
  "scenario_fs ''data/validation/fake'' = Some (Dir [])"
  "scenario_fs ''data/validation/real'' = Some (Dir [])"
  "scenario_fs ''data/testing/fake'' = Some (Dir [])"
  "scenario_fs ''data/testing/real'' = Some (Dir [])"
  by (simp_all add: scenario_fs_def)

lemma broken_fs_simps:
  "broken_fs ''data/training/fake'' = Some File"
  "broken_fs ''data/training/real'' = Some (Dir [''c.wav''])"
  "broken_fs ''data/validation/fake'' = None"
  "broken_fs ''data/validation/real'' = None"
  "broken_fs ''data/testing/fake'' = None"
  "broken_fs ''data/testing/real'' = None"
  by (simp_all add: broken_fs_def)

text \<open>
  The first end-to-end scenario of the specification. The table has two rows, for \<open>a.wav\<close>
  (\<open>fake\<close>, code 0) and \<open>c.wav\<close> (\<open>real\<close>, code 1), both of the split \<open>training\<close>; the error
  log has exactly one line, for \<open>b.wav\<close>; three files are counted, and the progress bar,
  whose total is 3 here, ends at 3.
\<close>

theorem scenario_split_dataset:
  "process_audio_files_for_norm demo_lib scenario_fs [] ''data'' =
     Inr \<lparr>all_features = [demo_features @ [(''filename'', CStr ''a.wav''),
                               (''split'', CStr ''training''), (''label'', CStr ''fake''),
                               (''LABEL'', CInt 0)],
                          demo_features @ [(''filename'', CStr ''c.wav''),
                               (''split'', CStr ''training''), (''label'', CStr ''real''),
                               (''LABEL'', CInt 1)]],
          error_log = [''Error processing data/training/fake/b.wav: corrupt file'' @ [CHR 0x0A]],
          progress_total = 3, progress_n = 3\<rparr> \<and>
   count_files_in_dataset scenario_fs ''data'' (Some splits) labels =
     Inr ([(''training'', PerLabel [(''fake'', 2), (''real'', 1)]),
           (''validation'', PerLabel [(''fake'', 0), (''real'', 0)]),
           (''testing'', PerLabel [(''fake'', 0), (''real'', 0)])], 3)"
proof -
  have total: "total_files_for_norm scenario_fs ''data'' = Inr 3"
    by (simp add: total_files_for_norm_def demo_folders listing_size_def os_path_exists_def
        os_listdir_def scenario_fs_simps)
  have run: "process_audio_files_for_norm demo_lib scenario_fs [] ''data'' =
     Inr \<lparr>all_features = [demo_features @ [(''filename'', CStr ''a.wav''),
                               (''split'', CStr ''training''), (''label'', CStr ''fake''),
                               (''LABEL'', CInt 0)],
                          demo_features @ [(''filename'', CStr ''c.wav''),
                               (''split'', CStr ''training''), (''label'', CStr ''real''),
                               (''LABEL'', CInt 1)]],
          error_log = [''Error processing data/training/fake/b.wav: corrupt file'' @ [CHR 0x0A]],
          progress_total = 3, progress_n = 3\<rparr>"
    by (simp add: process_audio_files_for_norm_def total splits_def labels_def keys_def
        for_norm_split_def for_norm_label_def demo_joins scenario_fs_simps os_path_exists_def
        os_listdir_def demo_is_wav demo_paths demo_try_a demo_try_b demo_try_c log_line_def
        demo_log_append
        for_norm_file_ok [OF demo_is_wav(1) _ demo_labels(1)]
        for_norm_file_fail [OF demo_is_wav(2)]
        for_norm_file_ok [OF demo_is_wav(3) _ demo_labels(2)])
  have count: "count_files_in_dataset scenario_fs ''data'' (Some splits) labels =
     Inr ([(''training'', PerLabel [(''fake'', 2), (''real'', 1)]),
           (''validation'', PerLabel [(''fake'', 0), (''real'', 0)]),
           (''testing'', PerLabel [(''fake'', 0), (''real'', 0)])], 3)"
    by (simp add: count_files_in_dataset_def count_split_def count_label_def
        count_folder_def splits_def labels_def keys_def demo_joins scenario_fs_simps
        os_path_exists_def os_listdir_def demo_is_wav)
  from run count show ?thesis by (rule conjI)
qed

text \<open>
  The second end-to-end scenario of the specification, in the flat layout: \<open>fake\<close> is empty
  and \<open>real\<close> holds one file. The table has one row with label \<open>real\<close> and code 1, its
  columns have no \<open>split\<close>, and the counts are 0 for \<open>fake\<close>, 1 for \<open>real\<close>, 1 in total.
\<close>

theorem scenario_flat_dataset:
  "process_audio_files_release_in_wild demo_lib demo_fs [] ''wild'' =
     Inr \<lparr>all_features = [demo_features @ [(''filename'', CStr ''d.wav''),
                               (''label'', CStr ''real''), (''LABEL'', CInt 1)]],
          error_log = [], progress_total = 1, progress_n = 1\<rparr> \<and>
   columns (pd_DataFrame [demo_features @ [(''filename'', CStr ''d.wav''),
                               (''label'', CStr ''real''), (''LABEL'', CInt 1)]]) =
     CANONICAL_KEYS @ [''filename'', ''label'', ''LABEL''] \<and>
   count_files_in_dataset demo_fs ''wild'' None labels =
     Inr ([(''fake'', Count 0), (''real'', Count 1)], 1)"
proof -
  have run: "process_audio_files_release_in_wild demo_lib demo_fs [] ''wild'' =
     Inr \<lparr>all_features = [demo_features @ [(''filename'', CStr ''d.wav''),
                               (''label'', CStr ''real''), (''LABEL'', CInt 1)]],
          error_log = [], progress_total = 1, progress_n = 1\<rparr>"
    using demo_release_in_wild_run by (simp add: demo_flat_row_def)
  have "list_all (\<lambda>r. keys r = RELEASE_IN_WILD_COLUMNS)
          [demo_features @ [(''filename'', CStr ''d.wav''), (''label'', CStr ''real''),
                            (''LABEL'', CInt 1)]]"
    using release_in_wild_rows [OF run] by (simp add: rows_have_def)
  from pd_DataFrame_same_keys [OF _ this distinct_RELEASE_IN_WILD_COLUMNS]
  have cols: "columns (pd_DataFrame [demo_features @ [(''filename'', CStr ''d.wav''),
                               (''label'', CStr ''real''), (''LABEL'', CInt 1)]]) =
     CANONICAL_KEYS @ [''filename'', ''label'', ''LABEL'']"
    by (simp add: RELEASE_IN_WILD_COLUMNS_def)
  from run cols demo_count(2) show ?thesis by blast
qed

text \<open>
  The error log. \<open>extract_features\<close> returns \<open>None\<close> exactly when its \<open>try\<close> block raises
  and the log accepts the line \<open>Error processing <path>: <message>\<close>, which is then the
  one line appended; it ends with an exception exactly when the \<open>try\<close> block raises and
  the append of that line raises.
\<close>

theorem extract_features_failure_logged:
  "(extract_features lib log file_path = Inr (None, log') \<longleftrightarrow>
      (\<exists>e. extract_features_try lib file_path = Inl e \<and>
           log_append lib log (''Error processing '' @ file_path @ '': '' @ e @ [CHR 0x0A])
             = None \<and>
           log' = log @ [''Error processing '' @ file_path @ '': '' @ e @ [CHR 0x0A]])) \<and>
   (extract_features lib log file_path = Inl err \<longleftrightarrow>
      (\<exists>e. extract_features_try lib file_path = Inl e \<and>
           log_append lib log (''Error processing '' @ file_path @ '': '' @ e @ [CHR 0x0A])
             = Some err))"
  by (auto simp: extract_features_def log_line_def split: sum.splits option.splits)

text \<open>
  Outside a layout. When a regular file stands where a label folder is expected,
  \<open>os.listdir\<close> raises; neither the counting function nor the batch function catches it.
\<close>

theorem regular_file_for_folder_raises:
  "count_files_in_dataset broken_fs ''data'' (Some splits) labels
     = Inl (NotADirectoryError ''data/training/fake'') \<and>
   process_audio_files_for_norm demo_lib broken_fs [] ''data''
     = Inl (NotADirectoryError ''data/training/fake'')"
  by (simp add: count_files_in_dataset_def count_split_def count_label_def count_folder_def
      process_audio_files_for_norm_def total_files_for_norm_def demo_folders listing_size_def
      splits_def labels_def keys_def demo_joins broken_fs_simps os_path_exists_def os_listdir_def)

end
